theory Spec2Isabelle
  imports Main "HOL-Library.Word" "HOL-Library.Multiset"
begin

section \<open>Values shared by the client modules\<close>

text \<open>
  A JavaScript string is a sequence of UTF-16 code units; \<open>length\<close> below is the
  \<^verbatim>\<open>.length\<close> of the source. \<open>js\<close> writes an ASCII literal as such a string.
  Texts shown to the user (toast titles, error messages) are never inspected by the
  code and are kept as plain \<open>string\<close>s.
\<close>

type_synonym js_string = "16 word list"

definition js :: "string \<Rightarrow> js_string" where
  "js s = map (\<lambda>c. of_char c) s"

text \<open>The error object of the response envelope \<^verbatim>\<open>{ data, error }\<close>.\<close>

record api_error =
  err_message :: string
  err_code :: string

section \<open>Session manager (src/lib/auth.ts)\<close>

text \<open>\<^verbatim>\<open>role?: 'user' | 'admin'\<close> of \<^verbatim>\<open>AuthUser\<close>.\<close>

datatype app_role = user | admin

text \<open>
  The interface \<^verbatim>\<open>AuthUser\<close>. The two optional members are options; \<open>email\<close> is an
  option as well, because \<^verbatim>\<open>session.user.email!\<close> is a compile-time assertion only
  and passes an absent address through.
\<close>

record AuthUser =
  au_id :: js_string
  au_email :: "js_string option"
  au_full_name :: "js_string option"
  au_role :: "app_role option"

text \<open>What the identity provider hands back from \<^verbatim>\<open>supabase.auth.getSession()\<close>.\<close>

record session_user =
  su_id :: js_string
  su_email :: "js_string option"

record session =
  s_user :: "session_user option"

record session_result =
  sr_session :: "session option"
  sr_error :: "api_error option"

text \<open>
  The rows the two secondary lookups select: \<^verbatim>\<open>.select('role')\<close> on \<^verbatim>\<open>user_roles\<close>
  and \<^verbatim>\<open>.select('full_name')\<close> on \<^verbatim>\<open>profiles\<close> (a nullable text column). Each lookup ends
  in \<^verbatim>\<open>.single()\<close>, whose envelope carries the row or \<^verbatim>\<open>null\<close>.
\<close>

record role_row =
  rr_role :: app_role

record profile_row =
  pr_full_name :: "js_string option"

record 'a single_result =
  sg_data :: "'a option"
  sg_error :: "api_error option"

text \<open>
  The hosted platform as \<open>getCurrentUser\<close> sees it: the answer to the session call,
  and the answers to the two lookups as functions of the id they are filtered by
  (\<^verbatim>\<open>.eq('user_id', id)\<close> and \<^verbatim>\<open>.eq('id', id)\<close>).
\<close>

record auth_platform =
  getSession :: session_result
  user_roles_single :: "js_string \<Rightarrow> role_row single_result"
  profiles_single :: "js_string \<Rightarrow> profile_row single_result"

text \<open>\<^verbatim>\<open>session?.user\<close>\<close>

fun session_user_of :: "session option \<Rightarrow> session_user option" where
  "session_user_of None = None"
| "session_user_of (Some s) = s_user s"

text \<open>\<^verbatim>\<open>roleData?.role || 'user'\<close>: both role names are truthy strings.\<close>

fun role_or_user :: "role_row option \<Rightarrow> app_role" where
  "role_or_user None = user"
| "role_or_user (Some r) = rr_role r"

text \<open>\<^verbatim>\<open>profileData?.full_name\<close>\<close>

fun full_name_of :: "profile_row option \<Rightarrow> js_string option" where
  "full_name_of None = None"
| "full_name_of (Some p) = pr_full_name p"

text \<open>\<open>None\<close> is the \<^verbatim>\<open>null\<close> of \<^verbatim>\<open>Promise<AuthUser | null>\<close>.\<close>

definition getCurrentUser :: "auth_platform \<Rightarrow> AuthUser option" where
  "getCurrentUser p =
     (let session = sr_session (getSession p); error = sr_error (getSession p) in
      if error \<noteq> None then None
      else case session_user_of session of
        None \<Rightarrow> None
      | Some u \<Rightarrow>
          let roleData = sg_data (user_roles_single p (su_id u));
              profileData = sg_data (profiles_single p (su_id u))
          in Some \<lparr> au_id = su_id u,
                    au_email = su_email u,
                    au_full_name = full_name_of profileData,
                    au_role = Some (role_or_user roleData) \<rparr>)"

section \<open>Task rows and the requests the client sends\<close>

datatype task_status = pending | in_progress | completed

datatype task_priority = low | medium | high

text \<open>
  The interface \<^verbatim>\<open>Task\<close> of the dashboard and the task list (\<open>task_id\<close> is its \<^verbatim>\<open>id\<close>).
  \<^verbatim>\<open>null\<close> is \<open>None\<close>. The client never inspects \<open>created_at\<close>; it is kept as the
  instant the storage orders by.
\<close>

record task =
  task_id :: js_string
  title :: js_string
  description :: "js_string option"
  status :: task_status
  priority :: task_priority
  due_date :: "js_string option"
  created_at :: int
  user_id :: js_string

text \<open>The object \<^verbatim>\<open>taskData\<close> built by the form: all six members are always present.\<close>

record taskData =
  td_title :: js_string
  td_description :: "js_string option"
  td_status :: task_status
  td_priority :: task_priority
  td_due_date :: "js_string option"
  td_user_id :: js_string

text \<open>
  The argument of \<^verbatim>\<open>.update(...)\<close> is an object naming any subset of the columns:
  a member that is absent is \<open>None\<close>, a member that is present carries its new value
  (which for the two nullable columns may itself be \<^verbatim>\<open>null\<close>).
\<close>

record task_patch =
  set_title :: "js_string option"
  set_description :: "js_string option option"
  set_status :: "task_status option"
  set_priority :: "task_priority option"
  set_due_date :: "js_string option option"
  set_user_id :: "js_string option"

text \<open>\<^verbatim>\<open>{ status: newStatus }\<close>\<close>

definition status_patch :: "task_status \<Rightarrow> task_patch" where
  "status_patch s =
     \<lparr> set_title = None, set_description = None, set_status = Some s,
       set_priority = None, set_due_date = None, set_user_id = None \<rparr>"

text \<open>\<^verbatim>\<open>taskData\<close> passed to \<^verbatim>\<open>.update(...)\<close>: every member is present.\<close>

definition full_patch :: "taskData \<Rightarrow> task_patch" where
  "full_patch d =
     \<lparr> set_title = Some (td_title d), set_description = Some (td_description d),
       set_status = Some (td_status d), set_priority = Some (td_priority d),
       set_due_date = Some (td_due_date d), set_user_id = Some (td_user_id d) \<rparr>"

text \<open>
  What the query builder can say about the \<^verbatim>\<open>tasks\<close> table: \<^verbatim>\<open>.eq('id', v)\<close> and
  \<^verbatim>\<open>.eq('user_id', v)\<close> filters, \<^verbatim>\<open>.order('created_at', { ascending })\<close>, and the four
  verbs. The form inserts the one-element array \<^verbatim>\<open>[taskData]\<close>.
\<close>

datatype task_filter = eq_id js_string | eq_user_id js_string

datatype order_by = order_created_at (ascending: bool)

datatype task_request =
    select_rows "task_filter list" "order_by option"
  | insert_row taskData
  | update_rows task_patch "task_filter list"
  | delete_rows "task_filter list"

record task_response =
  rs_data :: "task list option"
  rs_error :: "api_error option"

section \<open>The data layer behind the client\<close>

text \<open>
  Modelled from the spec: the access policy layer for \<^verbatim>\<open>tasks\<close> (the SQL policies are
  not among the sources). Section 4.1: a caller may read, update and delete only tasks
  whose owner id equals their own identity.
\<close>

definition tasks_policy :: "js_string \<Rightarrow> task \<Rightarrow> bool" where
  "tasks_policy caller t \<longleftrightarrow> user_id t = caller"

text \<open>
  Modelled from the spec: insert is permitted only when the inserted owner id equals
  the caller's own identity.
\<close>

definition insert_policy :: "js_string \<Rightarrow> taskData \<Rightarrow> bool" where
  "insert_policy caller d \<longleftrightarrow> td_user_id d = caller"

text \<open>
  The state of the hosted storage: the rows of \<^verbatim>\<open>tasks\<close>; a pending storage or
  connectivity failure (section 7, StorageError), which makes the next request fail
  without touching a row; and the id and creation instant the storage gives to the
  next inserted row.
\<close>

record data_layer =
  tasks_table :: "task list"
  fault :: "api_error option"
  fresh_id :: js_string
  now :: int

fun satisfies :: "task_filter \<Rightarrow> task \<Rightarrow> bool" where
  "satisfies (eq_id v) t \<longleftrightarrow> task_id t = v"
| "satisfies (eq_user_id v) t \<longleftrightarrow> user_id t = v"

text \<open>
  The rows a request of this caller reaches: those its filters select among those the
  policy lets the caller act on. The policy is a parameter here so that the same request
  can be run without it.
\<close>

definition reaches :: "(task \<Rightarrow> bool) \<Rightarrow> task_filter list \<Rightarrow> task \<Rightarrow> bool" where
  "reaches allowed fs t \<longleftrightarrow> allowed t \<and> list_all (\<lambda>f. satisfies f t) fs"

fun ordered :: "order_by option \<Rightarrow> task list \<Rightarrow> task list" where
  "ordered None ts = ts"
| "ordered (Some (order_created_at asc)) ts =
     (if asc then sort_key created_at ts else rev (sort_key created_at ts))"

definition apply_patch :: "task_patch \<Rightarrow> task \<Rightarrow> task" where
  "apply_patch p t =
     t \<lparr> title := (case set_title p of None \<Rightarrow> title t | Some v \<Rightarrow> v),
         description := (case set_description p of None \<Rightarrow> description t | Some v \<Rightarrow> v),
         status := (case set_status p of None \<Rightarrow> status t | Some v \<Rightarrow> v),
         priority := (case set_priority p of None \<Rightarrow> priority t | Some v \<Rightarrow> v),
         due_date := (case set_due_date p of None \<Rightarrow> due_date t | Some v \<Rightarrow> v),
         user_id := (case set_user_id p of None \<Rightarrow> user_id t | Some v \<Rightarrow> v) \<rparr>"

definition new_row :: "data_layer \<Rightarrow> taskData \<Rightarrow> task" where
  "new_row dl d =
     \<lparr> task_id = fresh_id dl, title = td_title d, description = td_description d,
       status = td_status d, priority = td_priority d, due_date = td_due_date d,
       created_at = now dl, user_id = td_user_id d \<rparr>"

definition policy_denial :: api_error where
  "policy_denial =
     \<lparr> err_message = ''new row violates row-level security policy'', err_code = ''42501'' \<rparr>"

text \<open>
  Modelled from the spec: the hosted data layer that executes a request under a row
  policy (its code is not among the sources). Sections 4.1, 4.4 and 6: a read returns
  the permitted rows in the requested order; an update sets the named columns of the
  permitted rows that match and leaves every other column and row alone (partial
  update); a delete removes the permitted rows that match; a row the policy hides is
  treated exactly like an absent row, without an error; an insert of a row the policy
  forbids is refused with an error. The answer is the envelope \<^verbatim>\<open>{ data, error }\<close>.
\<close>

definition run_request ::
  "(task \<Rightarrow> bool) \<Rightarrow> (taskData \<Rightarrow> bool) \<Rightarrow> data_layer \<Rightarrow> task_request
     \<Rightarrow> task_response \<times> data_layer" where
  "run_request allowed may_insert dl req =
     (case fault dl of
        Some e \<Rightarrow> (\<lparr> rs_data = None, rs_error = Some e \<rparr>, dl)
      | None \<Rightarrow>
         (case req of
            select_rows fs ord \<Rightarrow>
              (\<lparr> rs_data = Some (ordered ord (filter (reaches allowed fs) (tasks_table dl))),
                 rs_error = None \<rparr>, dl)
          | insert_row d \<Rightarrow>
              (if may_insert d
               then (\<lparr> rs_data = None, rs_error = None \<rparr>,
                     dl \<lparr> tasks_table := tasks_table dl @ [new_row dl d] \<rparr>)
               else (\<lparr> rs_data = None, rs_error = Some policy_denial \<rparr>, dl))
          | update_rows p fs \<Rightarrow>
              (\<lparr> rs_data = None, rs_error = None \<rparr>,
               dl \<lparr> tasks_table :=
                      map (\<lambda>t. if reaches allowed fs t then apply_patch p t else t)
                          (tasks_table dl) \<rparr>)
          | delete_rows fs \<Rightarrow>
              (\<lparr> rs_data = None, rs_error = None \<rparr>,
               dl \<lparr> tasks_table := filter (\<lambda>t. \<not> reaches allowed fs t) (tasks_table dl) \<rparr>)))"

text \<open>
  \<^verbatim>\<open>supabase.from('tasks')\<close> for a signed-in caller: the request runs under the policies
  of the access policy layer, evaluated for the identity in the caller's credential.
\<close>

definition from_tasks :: "js_string \<Rightarrow> data_layer \<Rightarrow> task_request \<Rightarrow> task_response \<times> data_layer" where
  "from_tasks caller = run_request (tasks_policy caller) (insert_policy caller)"

text \<open>The data layer as it would be if it held the caller's own rows and no others.\<close>

definition own_rows_only :: "js_string \<Rightarrow> data_layer \<Rightarrow> data_layer" where
  "own_rows_only caller dl = dl \<lparr> tasks_table := filter (tasks_policy caller) (tasks_table dl) \<rparr>"

section \<open>What a handler does\<close>

text \<open>
  A handler is run to completion against the data layer. Its run records, in order,
  the calls it makes on its surroundings (the toast, the state setters, the callbacks
  passed as props, the requests to \<^verbatim>\<open>tasks\<close>), the data layer afterwards, and
  whether it returned or an exception left it.
\<close>

datatype toast_variant = default_variant | destructive

record toast_args =
  toast_title :: string
  toast_description :: string
  toast_variant :: toast_variant

datatype js_exception = RangeError | TypeError

datatype event =
    preventDefault
  | toast toast_args
  | setIsLoading bool
  | setTasks "task list"
  | setDeleteTaskId "js_string option"
  | onSuccess
  | onTasksChange
  | request task_request

datatype completion = returned | threw js_exception

record run =
  events :: "event list"
  after :: data_layer
  completion :: completion

fun is_request :: "event \<Rightarrow> bool" where
  "is_request (request _) = True"
| "is_request _ = False"

section \<open>Dashboard (src/pages/Dashboard.tsx)\<close>

text \<open>\<^verbatim>\<open>setTasks((data || []) as Task[])\<close>\<close>

fun data_or_empty :: "task list option \<Rightarrow> task list" where
  "data_or_empty None = []"
| "data_or_empty (Some ts) = ts"

definition loadTasks_request :: task_request where
  "loadTasks_request = select_rows [] (Some (order_created_at False))"

definition loadTasks :: "js_string \<Rightarrow> data_layer \<Rightarrow> run" where
  "loadTasks caller dl =
     (case from_tasks caller dl loadTasks_request of (r, dl') \<Rightarrow>
        (case rs_error r of
           Some e \<Rightarrow>
             \<lparr> events = [request loadTasks_request,
                          toast \<lparr> toast_title = ''Error'',
                                  toast_description = ''Failed to load tasks'',
                                  toast_variant = destructive \<rparr>],
               after = dl', completion = returned \<rparr>
         | None \<Rightarrow>
             \<lparr> events = [request loadTasks_request, setTasks (data_or_empty (rs_data r))],
               after = dl', completion = returned \<rparr>))"

section \<open>Task list (src/components/TaskList.tsx)\<close>

definition handleDelete :: "js_string \<Rightarrow> js_string \<Rightarrow> data_layer \<Rightarrow> run" where
  "handleDelete caller taskId dl =
     (case from_tasks caller dl (delete_rows [eq_id taskId]) of (r, dl') \<Rightarrow>
        (case rs_error r of
           Some e \<Rightarrow>
             \<lparr> events = [request (delete_rows [eq_id taskId]),
                          toast \<lparr> toast_title = ''Error'',
                                  toast_description = ''Failed to delete task'',
                                  toast_variant = destructive \<rparr>],
               after = dl', completion = returned \<rparr>
         | None \<Rightarrow>
             \<lparr> events = [request (delete_rows [eq_id taskId]),
                          toast \<lparr> toast_title = ''Success'',
                                  toast_description = ''Task deleted successfully'',
                                  toast_variant = default_variant \<rparr>,
                          onTasksChange,
                          setDeleteTaskId None],
               after = dl', completion = returned \<rparr>))"

definition handleStatusChange :: "js_string \<Rightarrow> js_string \<Rightarrow> task_status \<Rightarrow> data_layer \<Rightarrow> run" where
  "handleStatusChange caller taskId newStatus dl =
     (case from_tasks caller dl (update_rows (status_patch newStatus) [eq_id taskId]) of (r, dl') \<Rightarrow>
        (case rs_error r of
           Some e \<Rightarrow>
             \<lparr> events = [request (update_rows (status_patch newStatus) [eq_id taskId]),
                          toast \<lparr> toast_title = ''Error'',
                                  toast_description = ''Failed to update task status'',
                                  toast_variant = destructive \<rparr>],
               after = dl', completion = returned \<rparr>
         | None \<Rightarrow>
             \<lparr> events = [request (update_rows (status_patch newStatus) [eq_id taskId]),
                          toast \<lparr> toast_title = ''Success'',
                                  toast_description = ''Task status updated'',
                                  toast_variant = default_variant \<rparr>,
                          onTasksChange],
               after = dl', completion = returned \<rparr>))"

section \<open>Task form (src/components/TaskForm.tsx)\<close>

subsection \<open>The validation schema\<close>

text \<open>
  \<^verbatim>\<open>String.prototype.trim\<close> removes white space and line terminators from both ends:
  TAB, LF, VT, FF, CR, SP, NBSP, the Unicode space separators, LS, PS and the byte
  order mark.
\<close>

definition js_whitespace :: "16 word list" where
  "js_whitespace =
     [0x0009, 0x000A, 0x000B, 0x000C, 0x000D, 0x0020, 0x00A0, 0x1680,
      0x2000, 0x2001, 0x2002, 0x2003, 0x2004, 0x2005, 0x2006, 0x2007,
      0x2008, 0x2009, 0x200A, 0x2028, 0x2029, 0x202F, 0x205F, 0x3000, 0xFEFF]"

definition is_whitespace :: "16 word \<Rightarrow> bool" where
  "is_whitespace c \<longleftrightarrow> c \<in> set js_whitespace"

definition js_trim :: "js_string \<Rightarrow> js_string" where
  "js_trim s = rev (dropWhile is_whitespace (rev (dropWhile is_whitespace s)))"

record zod_issue =
  issue_path :: string
  issue_message :: string

datatype zod_error = ZodError (issues: "zod_issue list")

text \<open>
  \<^verbatim>\<open>z.string().trim().min(1, 'Title is required').max(200, 'Title too long')\<close>: the
  checks run in the order written, each on the value the checks before it left, and
  every failed check adds its issue.
\<close>

definition title_issues :: "js_string \<Rightarrow> zod_issue list" where
  "title_issues v =
     (let t = js_trim v in
      (if length t < 1
       then [\<lparr> issue_path = ''title'', issue_message = ''Title is required'' \<rparr>] else []) @
      (if length t > 200
       then [\<lparr> issue_path = ''title'', issue_message = ''Title too long'' \<rparr>] else []))"

text \<open>\<^verbatim>\<open>z.string().max(1000, 'Description too long').optional()\<close>\<close>

fun description_issues :: "js_string option \<Rightarrow> zod_issue list" where
  "description_issues None = []"
| "description_issues (Some v) =
     (if length v > 1000
      then [\<lparr> issue_path = ''description'', issue_message = ''Description too long'' \<rparr>] else [])"

text \<open>\<^verbatim>\<open>z.enum([...])\<close>: the value has to be one of the listed options.\<close>

definition enum_issues :: "string \<Rightarrow> 'a list \<Rightarrow> 'a \<Rightarrow> zod_issue list" where
  "enum_issues path options v =
     (if v \<in> set options then []
      else [\<lparr> issue_path = path, issue_message = ''Invalid enum value'' \<rparr>])"

text \<open>\<^verbatim>\<open>z.string().optional()\<close>: any string passes, and so does \<^verbatim>\<open>undefined\<close>.\<close>

fun due_date_issues :: "js_string option \<Rightarrow> zod_issue list" where
  "due_date_issues None = []"
| "due_date_issues (Some v) = []"

text \<open>The object handed to \<^verbatim>\<open>taskSchema.parse\<close>, and the object it returns.\<close>

record task_input =
  in_title :: js_string
  in_description :: "js_string option"
  in_status :: task_status
  in_priority :: task_priority
  in_due_date :: "js_string option"

text \<open>The members are checked in the order of the schema's keys; the issues add up.\<close>

definition taskSchema_issues :: "task_input \<Rightarrow> zod_issue list" where
  "taskSchema_issues x =
     title_issues (in_title x) @
     description_issues (in_description x) @
     enum_issues ''status'' [pending, in_progress, completed] (in_status x) @
     enum_issues ''priority'' [low, medium, high] (in_priority x) @
     due_date_issues (in_due_date x)"

text \<open>\<^verbatim>\<open>taskSchema.parse\<close> throws a \<^verbatim>\<open>ZodError\<close> with all issues, or returns the parsed object.\<close>

definition taskSchema_parse :: "task_input \<Rightarrow> zod_error + task_input" where
  "taskSchema_parse x =
     (if taskSchema_issues x = [] then Inr (x \<lparr> in_title := js_trim (in_title x) \<rparr>)
      else Inl (ZodError (taskSchema_issues x)))"

subsection \<open>The form's state\<close>

record formData =
  f_title :: js_string
  f_description :: js_string
  f_status :: task_status
  f_priority :: task_priority
  f_due_date :: js_string

record TaskFormProps =
  userId :: js_string
  editing :: "task option"

text \<open>\<^verbatim>\<open>s.split('T')[0]\<close>: the part of \<open>s\<close> before its first \<^verbatim>\<open>T\<close>, all of \<open>s\<close> if it has none.\<close>

definition before_T :: "js_string \<Rightarrow> js_string" where
  "before_T s = takeWhile (\<lambda>c. c \<noteq> 0x54) s"

text \<open>\<^verbatim>\<open>v || ''\<close> on a nullable string.\<close>

fun or_empty :: "js_string option \<Rightarrow> js_string" where
  "or_empty None = []"
| "or_empty (Some v) = v"

text \<open>\<^verbatim>\<open>v || undefined\<close> and \<^verbatim>\<open>v || null\<close> on a string: the empty string is falsy.\<close>

definition or_absent :: "js_string \<Rightarrow> js_string option" where
  "or_absent v = (if v = [] then None else Some v)"

text \<open>
  The initial value of the \<^verbatim>\<open>useState\<close> holding \<^verbatim>\<open>formData\<close>. An empty title or due
  date of the task is falsy and gives the default as well, which is the empty string.
\<close>

fun initial_formData :: "task option \<Rightarrow> formData" where
  "initial_formData None =
     \<lparr> f_title = [], f_description = [], f_status = pending, f_priority = medium,
       f_due_date = [] \<rparr>"
| "initial_formData (Some t) =
     \<lparr> f_title = title t,
       f_description = or_empty (description t),
       f_status = status t,
       f_priority = priority t,
       f_due_date = (case due_date t of None \<Rightarrow> [] | Some d \<Rightarrow> if d = [] then [] else before_T d) \<rparr>"

subsection \<open>Submitting\<close>

text \<open>
  The \<^verbatim>\<open>Date\<close> of the JavaScript runtime, as far as the form uses it: the time value a
  string parses to (\<open>None\<close> for an invalid date), and the ISO rendering of a time value.
\<close>

record js_date =
  Date_parse :: "js_string \<Rightarrow> int option"
  toISOString :: "int \<Rightarrow> js_string"

text \<open>\<^verbatim>\<open>new Date(s).toISOString()\<close> throws a \<^verbatim>\<open>RangeError\<close> on an invalid date.\<close>

definition new_Date_toISOString :: "js_date \<Rightarrow> js_string \<Rightarrow> js_exception + js_string" where
  "new_Date_toISOString rt s =
     (case Date_parse rt s of None \<Rightarrow> Inl RangeError | Some t \<Rightarrow> Inr (toISOString rt t))"

text \<open>\<^verbatim>\<open>{ ...formData, description: formData.description || undefined, due_date: ... }\<close>\<close>

definition parse_argument :: "formData \<Rightarrow> task_input" where
  "parse_argument fd =
     \<lparr> in_title = f_title fd,
       in_description = or_absent (f_description fd),
       in_status = f_status fd,
       in_priority = f_priority fd,
       in_due_date = or_absent (f_due_date fd) \<rparr>"

text \<open>
  \<^verbatim>\<open>formData.due_date ? new Date(formData.due_date).toISOString() : null\<close>
\<close>

definition due_date_value :: "js_date \<Rightarrow> formData \<Rightarrow> js_exception + js_string option" where
  "due_date_value rt fd =
     (if f_due_date fd = [] then Inr None
      else case new_Date_toISOString rt (f_due_date fd) of
             Inl x \<Rightarrow> Inl x
           | Inr s \<Rightarrow> Inr (Some s))"

definition build_taskData :: "TaskFormProps \<Rightarrow> formData \<Rightarrow> js_string option \<Rightarrow> taskData" where
  "build_taskData props fd due =
     \<lparr> td_title = f_title fd,
       td_description = or_absent (f_description fd),
       td_status = f_status fd,
       td_priority = f_priority fd,
       td_due_date = due,
       td_user_id = userId props \<rparr>"

text \<open>The request the form sends: an update by id when it edits a task, else an insert.\<close>

definition write_request :: "TaskFormProps \<Rightarrow> taskData \<Rightarrow> task_request" where
  "write_request props d =
     (case editing props of
        Some t \<Rightarrow> update_rows (full_patch d) [eq_id (task_id t)]
      | None \<Rightarrow> insert_row d)"

definition success_text :: "TaskFormProps \<Rightarrow> string" where
  "success_text props =
     (case editing props of
        Some t \<Rightarrow> ''Task updated successfully''
      | None \<Rightarrow> ''Task created successfully'')"

text \<open>The part of \<open>handleSubmit\<close> after \<^verbatim>\<open>setIsLoading(true)\<close>.\<close>

definition persist :: "js_date \<Rightarrow> js_string \<Rightarrow> TaskFormProps \<Rightarrow> formData \<Rightarrow> data_layer \<Rightarrow> run" where
  "persist rt caller props fd dl =
     (case due_date_value rt fd of
        Inl x \<Rightarrow>
          \<lparr> events = [preventDefault, setIsLoading True], after = dl, completion = threw x \<rparr>
      | Inr due \<Rightarrow>
          (let d = build_taskData props fd due in
           case from_tasks caller dl (write_request props d) of (r, dl') \<Rightarrow>
             (case rs_error r of
                Some e \<Rightarrow>
                  \<lparr> events = [preventDefault, setIsLoading True, request (write_request props d),
                               toast \<lparr> toast_title = ''Error'',
                                       toast_description = err_message e,
                                       toast_variant = destructive \<rparr>,
                               setIsLoading False],
                    after = dl', completion = returned \<rparr>
              | None \<Rightarrow>
                  \<lparr> events = [preventDefault, setIsLoading True, request (write_request props d),
                               toast \<lparr> toast_title = ''Success'',
                                       toast_description = success_text props,
                                       toast_variant = default_variant \<rparr>,
                               setIsLoading False,
                               onSuccess],
                    after = dl', completion = returned \<rparr>)))"

text \<open>
  \<open>handleSubmit\<close>. The \<^verbatim>\<open>catch\<close> reads \<^verbatim>\<open>error.issues[0].message\<close>; on an error
  without issues that read itself throws a \<^verbatim>\<open>TypeError\<close>. The object \<^verbatim>\<open>parse\<close> returns
  is dropped: what is written comes from \<^verbatim>\<open>formData\<close>.
\<close>

definition handleSubmit :: "js_date \<Rightarrow> js_string \<Rightarrow> TaskFormProps \<Rightarrow> formData \<Rightarrow> data_layer \<Rightarrow> run" where
  "handleSubmit rt caller props fd dl =
     (case taskSchema_parse (parse_argument fd) of
        Inl (ZodError []) \<Rightarrow>
          \<lparr> events = [preventDefault], after = dl, completion = threw TypeError \<rparr>
      | Inl (ZodError (i # _)) \<Rightarrow>
          \<lparr> events = [preventDefault,
                       toast \<lparr> toast_title = ''Validation Error'',
                               toast_description = issue_message i,
                               toast_variant = destructive \<rparr>],
            after = dl, completion = returned \<rparr>
      | Inr _ \<Rightarrow> persist rt caller props fd dl)"

text \<open>
  A platform for concrete runs: the session of caller \<open>u1\<close> is live, the role lookup
  fails (no row, an error in the envelope) and so does the profile lookup.
\<close>

definition lookup_failed :: "'a single_result" where
  "lookup_failed =
     \<lparr> sg_data = None,
       sg_error = Some \<lparr> err_message = ''no rows returned'', err_code = ''PGRST116'' \<rparr> \<rparr>"

definition platform_lookups_fail :: auth_platform where
  "platform_lookups_fail =
     \<lparr> getSession =
         \<lparr> sr_session = Some \<lparr> s_user = Some \<lparr> su_id = js ''u1'', su_email = Some (js ''a@b.c'') \<rparr> \<rparr>,
           sr_error = None \<rparr>,
       user_roles_single = (\<lambda>_. lookup_failed),
       profiles_single = (\<lambda>_. lookup_failed) \<rparr>"

definition platform_no_session :: auth_platform where
  "platform_no_session =
     \<lparr> getSession = \<lparr> sr_session = None, sr_error = None \<rparr>,
       user_roles_single = (\<lambda>_. lookup_failed),
       profiles_single = (\<lambda>_. lookup_failed) \<rparr>"

section \<open>Concrete data for the examples\<close>

text \<open>
  A fragment of a runtime's \<^verbatim>\<open>Date\<close>: it knows the three spellings the examples use
  (1 May 2024, at midnight and at 10:30 UTC) and takes every other string for an
  invalid date.
\<close>

definition example_date :: js_date where
  "example_date =
     \<lparr> Date_parse = (\<lambda>s.
         if s = js ''2024-05-01'' then Some 1714521600000
         else if s = js ''2024-05-01T00:00:00.000Z'' then Some 1714521600000
         else if s = js ''2024-05-01T10:30:00+00:00'' then Some 1714559400000
         else None),
       toISOString = (\<lambda>t.
         if t = 1714521600000 then js ''2024-05-01T00:00:00.000Z''
         else if t = 1714559400000 then js ''2024-05-01T10:30:00.000Z''
         else []) \<rparr>"

text \<open>Two users; the first owns two tasks, the second one.\<close>

definition report_task :: task where
  "report_task =
     \<lparr> task_id = js ''t1'', title = js ''Write report'', description = None,
       status = pending, priority = high,
       due_date = Some (js ''2024-05-01T10:30:00+00:00''),
       created_at = 100, user_id = js ''alice'' \<rparr>"

definition review_task :: task where
  "review_task =
     \<lparr> task_id = js ''t2'', title = js ''Review'', description = Some (js ''second pass''),
       status = in_progress, priority = low, due_date = None,
       created_at = 300, user_id = js ''alice'' \<rparr>"

definition backup_task :: task where
  "backup_task =
     \<lparr> task_id = js ''t3'', title = js ''Backup'', description = None,
       status = pending, priority = medium, due_date = None,
       created_at = 200, user_id = js ''bob'' \<rparr>"

definition example_store :: data_layer where
  "example_store =
     \<lparr> tasks_table = [report_task, backup_task, review_task], fault = None,
       fresh_id = js ''t4'', now = 400 \<rparr>"

definition blank_form :: formData where
  "blank_form = initial_formData None"

text \<open>Forms as a user may have filled them in.\<close>

definition overlong_form :: formData where
  "overlong_form =
     \<lparr> f_title = replicate 201 0x61, f_description = replicate 1001 0x61,
       f_status = pending, f_priority = medium, f_due_date = [] \<rparr>"

definition blank_title_form :: formData where
  "blank_title_form = blank_form \<lparr> f_title := replicate 200 0x20 \<rparr>"

definition full_title_form :: formData where
  "full_title_form = blank_form \<lparr> f_title := replicate 200 0x61 \<rparr>"

definition padded_title_form :: formData where
  "padded_title_form = blank_form \<lparr> f_title := 0x20 # replicate 200 0x61 \<rparr>"

definition dated_form :: formData where
  "dated_form = blank_form \<lparr> f_title := js ''Pay rent'', f_due_date := js ''2024-05-01'' \<rparr>"

definition misdated_form :: formData where
  "misdated_form = blank_form \<lparr> f_title := js ''Pay rent'', f_due_date := js ''not a date'' \<rparr>"

definition alice_creates :: TaskFormProps where
  "alice_creates = \<lparr> userId = js ''alice'', editing = None \<rparr>"

definition alice_edits_report :: TaskFormProps where
  "alice_edits_report = \<lparr> userId = user_id report_task, editing = Some report_task \<rparr>"

text \<open>The edit form opened on the first task, with nothing but the title retyped.\<close>

definition retitled_form :: formData where
  "retitled_form = (initial_formData (Some report_task)) \<lparr> f_title := js ''Write report v2'' \<rparr>"

section \<open>Properties of the session manager\<close>

lemma getCurrentUser_authenticated:
  assumes "sr_error (getSession p) = None"
    and "session_user_of (sr_session (getSession p)) = Some u"
  shows "getCurrentUser p =
     Some \<lparr> au_id = su_id u, au_email = su_email u,
            au_full_name = full_name_of (sg_data (profiles_single p (su_id u))),
            au_role = Some (role_or_user (sg_data (user_roles_single p (su_id u)))) \<rparr>"
  using assms by (simp add: getCurrentUser_def)

lemma role_or_user_admin_iff:
  "role_or_user rd = admin \<longleftrightarrow> (\<exists>r. rd = Some r \<and> rr_role r = admin)"
  by (cases rd) simp_all

lemma role_or_user_cases: "role_or_user rd = admin \<or> role_or_user rd = user"
  by (cases "role_or_user rd") simp_all

text \<open>
  Claim C1. For an authenticated caller (the session call reports no error and carries
  a user) \<open>getCurrentUser\<close> always returns an identity, never \<open>null\<close>. Its role is
  \<open>admin\<close> exactly when the role lookup for the caller's id returned a row that says
  \<open>admin\<close>; in every other case, among them a role lookup that returned no row or
  failed, the role is \<open>user\<close>. When the profile lookup returns no row the display name
  is omitted, and when both lookups fail the identity is the caller's id and address
  with role \<open>user\<close> and no display name.
\<close>

theorem getCurrentUser_role_default:
  assumes "sr_error (getSession p) = None"
    and "session_user_of (sr_session (getSession p)) = Some u"
  shows "\<exists>a. getCurrentUser p = Some a
      \<and> au_id a = su_id u
      \<and> (au_role a = Some admin \<longleftrightarrow>
           (\<exists>r. sg_data (user_roles_single p (su_id u)) = Some r \<and> rr_role r = admin))
      \<and> (au_role a \<noteq> Some admin \<longrightarrow> au_role a = Some user)
      \<and> (sg_data (user_roles_single p (su_id u)) = None \<longrightarrow> au_role a = Some user)
      \<and> (sg_data (profiles_single p (su_id u)) = None \<longrightarrow> au_full_name a = None)
      \<and> (sg_data (user_roles_single p (su_id u)) = None
           \<and> sg_data (profiles_single p (su_id u)) = None \<longrightarrow>
           a = \<lparr> au_id = su_id u, au_email = su_email u,
                 au_full_name = None, au_role = Some user \<rparr>)"
proof -
  let ?rd = "sg_data (user_roles_single p (su_id u))"
  let ?pd = "sg_data (profiles_single p (su_id u))"
  let ?a = "\<lparr> au_id = su_id u, au_email = su_email u,
             au_full_name = full_name_of ?pd, au_role = Some (role_or_user ?rd) \<rparr>"
  have run: "getCurrentUser p = Some ?a"
    using assms by (rule getCurrentUser_authenticated)
  have adm: "au_role ?a = Some admin \<longleftrightarrow> (\<exists>r. ?rd = Some r \<and> rr_role r = admin)"
    by (simp add: role_or_user_admin_iff)
  have dflt: "au_role ?a \<noteq> Some admin \<longrightarrow> au_role ?a = Some user"
    using role_or_user_cases [of ?rd] by auto
  have norow: "?rd = None \<longrightarrow> au_role ?a = Some user"
    by simp
  have noname: "?pd = None \<longrightarrow> au_full_name ?a = None"
    by simp
  have both: "?rd = None \<and> ?pd = None \<longrightarrow>
      ?a = \<lparr> au_id = su_id u, au_email = su_email u, au_full_name = None, au_role = Some user \<rparr>"
    by simp
  from run adm dflt norow noname both show ?thesis
    by (intro exI [of _ ?a] conjI) simp_all
qed

theorem getCurrentUser_role_default_witness:
  "getCurrentUser platform_lookups_fail =
     Some \<lparr> au_id = js ''u1'', au_email = Some (js ''a@b.c''),
            au_full_name = None, au_role = Some user \<rparr>"
proof -
  let ?u = "\<lparr> su_id = js ''u1'', su_email = Some (js ''a@b.c'') \<rparr>"
  have e: "sr_error (getSession platform_lookups_fail) = None"
    by (simp add: platform_lookups_fail_def)
  have s: "session_user_of (sr_session (getSession platform_lookups_fail)) = Some ?u"
    by (simp add: platform_lookups_fail_def)
  have none: "sg_data (user_roles_single platform_lookups_fail (su_id ?u)) = None"
    "sg_data (profiles_single platform_lookups_fail (su_id ?u)) = None"
    by (simp_all add: platform_lookups_fail_def lookup_failed_def)
  from getCurrentUser_role_default [OF e s] none show ?thesis
    by auto
qed

text \<open>
  Claim C3. When the session call reports an error, or returns no session, or a
  session without a user, \<open>getCurrentUser\<close> returns \<open>null\<close>: the model has no raising
  branch on this path, the result is the value \<open>None\<close>.
\<close>

theorem getCurrentUser_no_session:
  assumes "sr_error (getSession p) \<noteq> None \<or> session_user_of (sr_session (getSession p)) = None"
  shows "getCurrentUser p = None"
  using assms by (auto simp: getCurrentUser_def)

theorem getCurrentUser_no_session_witness:
  "getCurrentUser platform_no_session = None"
proof -
  have "session_user_of (sr_session (getSession platform_no_session)) = None"
    by (simp add: platform_no_session_def)
  then show ?thesis
    using getCurrentUser_no_session [of platform_no_session] by blast
qed

section \<open>Properties of the validation schema\<close>

lemma status_enum_passes: "enum_issues path [pending, in_progress, completed] s = []"
  by (cases s) (simp_all add: enum_issues_def)

lemma priority_enum_passes: "enum_issues path [low, medium, high] q = []"
  by (cases q) (simp_all add: enum_issues_def)

lemma due_date_passes: "due_date_issues d = []"
  by (cases d) simp_all

lemma taskSchema_issues_fields:
  "taskSchema_issues x = title_issues (in_title x) @ description_issues (in_description x)"
  by (simp add: taskSchema_issues_def status_enum_passes priority_enum_passes due_date_passes)

lemma title_issues_empty:
  "js_trim v = [] \<Longrightarrow>
     title_issues v = [\<lparr> issue_path = ''title'', issue_message = ''Title is required'' \<rparr>]"
  by (simp add: title_issues_def)

lemma title_issues_long:
  "200 < length (js_trim v) \<Longrightarrow>
     title_issues v = [\<lparr> issue_path = ''title'', issue_message = ''Title too long'' \<rparr>]"
  by (auto simp: title_issues_def)

lemma title_issues_none:
  "js_trim v \<noteq> [] \<Longrightarrow> length (js_trim v) \<le> 200 \<Longrightarrow> title_issues v = []"
  by (cases "js_trim v") (simp_all add: title_issues_def)

lemma description_issues_or_absent:
  "description_issues (or_absent v) =
     (if 1000 < length v
      then [\<lparr> issue_path = ''description'', issue_message = ''Description too long'' \<rparr>]
      else [])"
  by (simp add: or_absent_def)

text \<open>The message of the first issue, by the order of the schema.\<close>

lemma first_issue_message:
  assumes "taskSchema_issues (parse_argument fd) = i # rest"
  shows "issue_message i =
     (if js_trim (f_title fd) = [] then ''Title is required''
      else if 200 < length (js_trim (f_title fd)) then ''Title too long''
      else ''Description too long'')"
proof -
  let ?t = "js_trim (f_title fd)"
  have all: "title_issues (f_title fd) @ description_issues (or_absent (f_description fd)) = i # rest"
    using assms by (simp add: taskSchema_issues_fields parse_argument_def)
  consider (empty) "?t = []" | (long) "?t \<noteq> []" "200 < length ?t"
    | (fine) "?t \<noteq> []" "length ?t \<le> 200"
    by fastforce
  then show ?thesis
  proof cases
    case empty
    with all show ?thesis by (auto simp: title_issues_empty)
  next
    case long
    with all show ?thesis by (auto simp: title_issues_long)
  next
    case fine
    with all show ?thesis
      by (auto simp: title_issues_none description_issues_or_absent split: if_splits)
  qed
qed

lemma taskSchema_parse_issues:
  "taskSchema_issues x = i # rest \<Longrightarrow> taskSchema_parse x = Inl (ZodError (i # rest))"
  by (simp add: taskSchema_parse_def)

lemma taskSchema_parse_accepts:
  "taskSchema_issues x = [] \<Longrightarrow> taskSchema_parse x = Inr (x \<lparr> in_title := js_trim (in_title x) \<rparr>)"
  by (simp add: taskSchema_parse_def)

lemma handleSubmit_rejects:
  assumes "taskSchema_issues (parse_argument fd) = i # rest"
  shows "handleSubmit rt caller props fd dl =
     \<lparr> events = [preventDefault,
                  toast \<lparr> toast_title = ''Validation Error'',
                          toast_description = issue_message i,
                          toast_variant = destructive \<rparr>],
       after = dl, completion = returned \<rparr>"
  by (simp add: handleSubmit_def taskSchema_parse_issues [OF assms])

lemma handleSubmit_accepts:
  assumes "taskSchema_issues (parse_argument fd) = []"
  shows "handleSubmit rt caller props fd dl = persist rt caller props fd dl"
  by (simp add: handleSubmit_def taskSchema_parse_accepts [OF assms])

text \<open>
  The schema never looks into the due date: two submissions that differ in nothing
  else raise the same issues.
\<close>

lemma taskSchema_issues_ignore_due_date:
  "taskSchema_issues (parse_argument (fd \<lparr> f_due_date := d \<rparr>)) = taskSchema_issues (parse_argument fd)"
  by (simp add: taskSchema_issues_fields parse_argument_def)

lemma issues_when_valid:
  assumes "js_trim (f_title fd) \<noteq> []" "length (js_trim (f_title fd)) \<le> 200"
    and "length (f_description fd) \<le> 1000"
  shows "taskSchema_issues (parse_argument fd) = []"
  using assms
  by (simp add: taskSchema_issues_fields parse_argument_def title_issues_none
      description_issues_or_absent)

subsection \<open>Trimming concrete titles\<close>

lemma letter_a_not_whitespace: "\<not> is_whitespace 0x61"
  by (simp add: is_whitespace_def js_whitespace_def)

lemma space_is_whitespace: "is_whitespace 0x20"
  by (simp add: is_whitespace_def js_whitespace_def)

lemma js_trim_letters: "js_trim (replicate n 0x61) = replicate n 0x61"
  by (simp add: js_trim_def letter_a_not_whitespace)

lemma js_trim_padded_letters: "js_trim (0x20 # replicate n 0x61) = replicate n 0x61"
  by (simp add: js_trim_def letter_a_not_whitespace space_is_whitespace)

lemma js_trim_spaces: "js_trim (replicate n 0x20) = []"
  by (simp add: js_trim_def space_is_whitespace)

subsection \<open>Runs of the form once validation has passed\<close>

lemma persist_requests:
  assumes "due_date_value rt fd = Inr due"
  shows "filter is_request (events (persist rt caller props fd dl)) =
           [request (write_request props (build_taskData props fd due))]"
  using assms by (simp add: persist_def Let_def split: prod.splits option.splits)

lemma persist_throws:
  assumes "due_date_value rt fd = Inl x"
  shows "persist rt caller props fd dl =
     \<lparr> events = [preventDefault, setIsLoading True], after = dl, completion = threw x \<rparr>"
  using assms by (simp add: persist_def)

lemma due_date_value_empty: "f_due_date fd = [] \<Longrightarrow> due_date_value rt fd = Inr None"
  by (simp add: due_date_value_def)

lemma due_date_value_parsed:
  "f_due_date fd \<noteq> [] \<Longrightarrow> Date_parse rt (f_due_date fd) = Some t \<Longrightarrow>
     due_date_value rt fd = Inr (Some (toISOString rt t))"
  by (simp add: due_date_value_def new_Date_toISOString_def)

lemma due_date_value_invalid:
  "f_due_date fd \<noteq> [] \<Longrightarrow> Date_parse rt (f_due_date fd) = None \<Longrightarrow>
     due_date_value rt fd = Inl RangeError"
  by (simp add: due_date_value_def new_Date_toISOString_def)

section \<open>Properties of the task form\<close>

text \<open>
  Claim C5. A submission whose fields violate the schema is answered by exactly one
  toast, carrying the message of the first issue in the order of the schema (the
  title's issue before the description's), and the handler returns there: its run
  holds no request to the data layer, neither insert nor update, and the data layer is
  as it was.
\<close>

theorem handleSubmit_validation_blocks:
  assumes "taskSchema_issues (parse_argument fd) \<noteq> []"
  shows "\<exists>i rest. taskSchema_issues (parse_argument fd) = i # rest
      \<and> handleSubmit rt caller props fd dl =
          \<lparr> events = [preventDefault,
                       toast \<lparr> toast_title = ''Validation Error'',
                               toast_description = issue_message i,
                               toast_variant = destructive \<rparr>],
            after = dl, completion = returned \<rparr>
      \<and> issue_message i =
          (if js_trim (f_title fd) = [] then ''Title is required''
           else if 200 < length (js_trim (f_title fd)) then ''Title too long''
           else ''Description too long'')
      \<and> filter is_request (events (handleSubmit rt caller props fd dl)) = []
      \<and> after (handleSubmit rt caller props fd dl) = dl"
proof -
  from assms obtain i rest where ir: "taskSchema_issues (parse_argument fd) = i # rest"
    by (cases "taskSchema_issues (parse_argument fd)") auto
  note run = handleSubmit_rejects [OF ir, of rt caller props dl]
  have "filter is_request (events (handleSubmit rt caller props fd dl)) = []"
    by (simp add: run)
  moreover have "after (handleSubmit rt caller props fd dl) = dl"
    by (simp add: run)
  ultimately show ?thesis
    using ir run first_issue_message [OF ir] by blast
qed

theorem handleSubmit_validation_blocks_witness:
  "handleSubmit example_date (js ''alice'') alice_edits_report overlong_form example_store =
     \<lparr> events = [preventDefault,
                  toast \<lparr> toast_title = ''Validation Error'',
                          toast_description = ''Title too long'',
                          toast_variant = destructive \<rparr>],
       after = example_store, completion = returned \<rparr>"
proof -
  have t: "js_trim (f_title overlong_form) = replicate 201 0x61"
    by (simp add: overlong_form_def js_trim_letters)
  have "taskSchema_issues (parse_argument overlong_form) \<noteq> []"
    by (simp add: taskSchema_issues_fields parse_argument_def title_issues_long t)
  from handleSubmit_validation_blocks [OF this, of example_date "js ''alice''"
      alice_edits_report example_store]
  show ?thesis by (auto simp: t)
qed

text \<open>
  Claim C4, as the form implements it. The length bound is on the trimmed title. A
  title that is empty after trimming is rejected with ``Title is required'' before any
  request; a title whose trimmed form is longer than 200 is rejected with ``Title too
  long'' before any request; a title whose trimmed form has between 1 and 200
  characters, exactly 200 among them, passes validation when the description is within
  its bound, and then the write request is the one request of the run once the due date
  converts.
\<close>

theorem title_length_bounds:
  "(js_trim (f_title fd) = [] \<longrightarrow>
      handleSubmit rt caller props fd dl =
        \<lparr> events = [preventDefault,
                     toast \<lparr> toast_title = ''Validation Error'',
                             toast_description = ''Title is required'',
                             toast_variant = destructive \<rparr>],
          after = dl, completion = returned \<rparr>)
   \<and> (200 < length (js_trim (f_title fd)) \<longrightarrow>
      handleSubmit rt caller props fd dl =
        \<lparr> events = [preventDefault,
                     toast \<lparr> toast_title = ''Validation Error'',
                             toast_description = ''Title too long'',
                             toast_variant = destructive \<rparr>],
          after = dl, completion = returned \<rparr>)
   \<and> (length (js_trim (f_title fd)) = 200 \<and> length (f_description fd) \<le> 1000 \<longrightarrow>
      taskSchema_issues (parse_argument fd) = []
      \<and> handleSubmit rt caller props fd dl = persist rt caller props fd dl
      \<and> (\<forall>due. due_date_value rt fd = Inr due \<longrightarrow>
            filter is_request (events (handleSubmit rt caller props fd dl)) =
              [request (write_request props (build_taskData props fd due))]))"
proof (intro conjI impI)
  assume e: "js_trim (f_title fd) = []"
  then obtain i rest where ir: "taskSchema_issues (parse_argument fd) = i # rest"
    by (auto simp: taskSchema_issues_fields parse_argument_def title_issues_empty)
  from first_issue_message [OF ir] e have "issue_message i = ''Title is required''"
    by simp
  with handleSubmit_rejects [OF ir, of rt caller props dl]
  show "handleSubmit rt caller props fd dl =
        \<lparr> events = [preventDefault,
                     toast \<lparr> toast_title = ''Validation Error'',
                             toast_description = ''Title is required'',
                             toast_variant = destructive \<rparr>],
          after = dl, completion = returned \<rparr>"
    by simp
next
  assume l: "200 < length (js_trim (f_title fd))"
  then obtain i rest where ir: "taskSchema_issues (parse_argument fd) = i # rest"
    by (auto simp: taskSchema_issues_fields parse_argument_def title_issues_long)
  from l have "js_trim (f_title fd) \<noteq> []" by auto
  with first_issue_message [OF ir] l have "issue_message i = ''Title too long''"
    by simp
  with handleSubmit_rejects [OF ir, of rt caller props dl]
  show "handleSubmit rt caller props fd dl =
        \<lparr> events = [preventDefault,
                     toast \<lparr> toast_title = ''Validation Error'',
                             toast_description = ''Title too long'',
                             toast_variant = destructive \<rparr>],
          after = dl, completion = returned \<rparr>"
    by simp
next
  assume a: "length (js_trim (f_title fd)) = 200 \<and> length (f_description fd) \<le> 1000"
  then have ne: "js_trim (f_title fd) \<noteq> []" by auto
  from a ne show ok: "taskSchema_issues (parse_argument fd) = []"
    by (simp add: issues_when_valid)
  show run: "handleSubmit rt caller props fd dl = persist rt caller props fd dl"
    by (rule handleSubmit_accepts [OF ok])
  show "\<forall>due. due_date_value rt fd = Inr due \<longrightarrow>
            filter is_request (events (handleSubmit rt caller props fd dl)) =
              [request (write_request props (build_taskData props fd due))]"
    by (simp add: run persist_requests)
qed

theorem title_length_bounds_witness:
  "handleSubmit example_date (js ''alice'') alice_creates blank_title_form example_store =
     \<lparr> events = [preventDefault,
                  toast \<lparr> toast_title = ''Validation Error'',
                          toast_description = ''Title is required'',
                          toast_variant = destructive \<rparr>],
       after = example_store, completion = returned \<rparr>
   \<and> handleSubmit example_date (js ''alice'') alice_creates overlong_form example_store =
     \<lparr> events = [preventDefault,
                  toast \<lparr> toast_title = ''Validation Error'',
                          toast_description = ''Title too long'',
                          toast_variant = destructive \<rparr>],
       after = example_store, completion = returned \<rparr>
   \<and> length (f_title full_title_form) = 200
   \<and> filter is_request
        (events (handleSubmit example_date (js ''alice'') alice_creates full_title_form example_store)) =
       [request (insert_row
          \<lparr> td_title = replicate 200 0x61, td_description = None, td_status = pending,
            td_priority = medium, td_due_date = None, td_user_id = js ''alice'' \<rparr>)]"
proof -
  have blank: "js_trim (f_title blank_title_form) = []"
    by (simp add: blank_title_form_def js_trim_spaces)
  have long: "200 < length (js_trim (f_title overlong_form))"
    by (simp add: overlong_form_def js_trim_letters)
  have full: "length (js_trim (f_title full_title_form)) = 200
      \<and> length (f_description full_title_form) \<le> 1000"
    by (simp add: full_title_form_def blank_form_def js_trim_letters)
  have due: "due_date_value example_date full_title_form = Inr None"
    by (simp add: due_date_value_empty full_title_form_def blank_form_def)
  have req: "write_request alice_creates (build_taskData alice_creates full_title_form None) =
      insert_row \<lparr> td_title = replicate 200 0x61, td_description = None, td_status = pending,
            td_priority = medium, td_due_date = None, td_user_id = js ''alice'' \<rparr>"
    by (simp add: write_request_def build_taskData_def alice_creates_def full_title_form_def
        blank_form_def or_absent_def)
  have len: "length (f_title full_title_form) = 200"
    by (simp add: full_title_form_def)
  from title_length_bounds [of blank_title_form example_date "js ''alice''" alice_creates example_store]
    blank
  have one: "handleSubmit example_date (js ''alice'') alice_creates blank_title_form example_store =
     \<lparr> events = [preventDefault,
                  toast \<lparr> toast_title = ''Validation Error'',
                          toast_description = ''Title is required'',
                          toast_variant = destructive \<rparr>],
       after = example_store, completion = returned \<rparr>"
    by blast
  from title_length_bounds [of overlong_form example_date "js ''alice''" alice_creates example_store]
    long
  have two: "handleSubmit example_date (js ''alice'') alice_creates overlong_form example_store =
     \<lparr> events = [preventDefault,
                  toast \<lparr> toast_title = ''Validation Error'',
                          toast_description = ''Title too long'',
                          toast_variant = destructive \<rparr>],
       after = example_store, completion = returned \<rparr>"
    by blast
  from title_length_bounds [of full_title_form example_date "js ''alice''" alice_creates example_store]
    full due
  have "filter is_request
        (events (handleSubmit example_date (js ''alice'') alice_creates full_title_form example_store)) =
       [request (write_request alice_creates (build_taskData alice_creates full_title_form None))]"
    by blast
  with req have three: "filter is_request
        (events (handleSubmit example_date (js ''alice'') alice_creates full_title_form example_store)) =
       [request (insert_row
          \<lparr> td_title = replicate 200 0x61, td_description = None, td_status = pending,
            td_priority = medium, td_due_date = None, td_user_id = js ''alice'' \<rparr>)]"
    by simp
  from one two len three show ?thesis by blast
qed

text \<open>
  Claim C4 as stated fails: a title of 201 characters that starts with a space is
  trimmed to 200 before it is measured, passes validation, and the insert is issued
  with the title as typed.
\<close>

theorem title_201_accepted_counterexample:
  "length (f_title padded_title_form) = 201
   \<and> filter is_request
        (events (handleSubmit example_date (js ''alice'') alice_creates padded_title_form example_store)) =
       [request (insert_row
          \<lparr> td_title = 0x20 # replicate 200 0x61, td_description = None, td_status = pending,
            td_priority = medium, td_due_date = None, td_user_id = js ''alice'' \<rparr>)]"
proof -
  have ok: "taskSchema_issues (parse_argument padded_title_form) = []"
    by (rule issues_when_valid)
      (simp_all add: padded_title_form_def blank_form_def js_trim_padded_letters)
  have due: "due_date_value example_date padded_title_form = Inr None"
    by (simp add: due_date_value_empty padded_title_form_def blank_form_def)
  have req: "write_request alice_creates (build_taskData alice_creates padded_title_form None) =
      insert_row \<lparr> td_title = 0x20 # replicate 200 0x61, td_description = None,
            td_status = pending, td_priority = medium, td_due_date = None,
            td_user_id = js ''alice'' \<rparr>"
    by (simp add: write_request_def build_taskData_def alice_creates_def padded_title_form_def
        blank_form_def or_absent_def)
  have "length (f_title padded_title_form) = 201"
    by (simp add: padded_title_form_def)
  then show ?thesis
    by (simp add: handleSubmit_accepts [OF ok] persist_requests [OF due] req)
qed

text \<open>
  Claim C6, as the form implements it. The due date is optional and the schema accepts
  whatever string is supplied for it: the issues of a submission do not depend on the
  due date. Once validation has passed, an empty due date is written as \<^verbatim>\<open>null\<close> and
  one that parses is written as the ISO rendering of its instant. One that does not
  parse reaches no request all the same: the conversion throws a \<^verbatim>\<open>RangeError\<close> after
  \<^verbatim>\<open>setIsLoading(true)\<close> and before the write, and the data layer is as it was.
\<close>

theorem due_date_not_validated:
  "taskSchema_issues (parse_argument (fd \<lparr> f_due_date := d \<rparr>)) = taskSchema_issues (parse_argument fd)
   \<and> (taskSchema_issues (parse_argument fd) = [] \<longrightarrow>
        (f_due_date fd = [] \<longrightarrow>
           filter is_request (events (handleSubmit rt caller props fd dl)) =
             [request (write_request props (build_taskData props fd None))])
      \<and> (\<forall>t. f_due_date fd \<noteq> [] \<and> Date_parse rt (f_due_date fd) = Some t \<longrightarrow>
           filter is_request (events (handleSubmit rt caller props fd dl)) =
             [request (write_request props (build_taskData props fd (Some (toISOString rt t))))])
      \<and> (f_due_date fd \<noteq> [] \<and> Date_parse rt (f_due_date fd) = None \<longrightarrow>
           handleSubmit rt caller props fd dl =
             \<lparr> events = [preventDefault, setIsLoading True], after = dl,
               completion = threw RangeError \<rparr>))"
proof (intro conjI impI allI)
  show "taskSchema_issues (parse_argument (fd \<lparr> f_due_date := d \<rparr>)) =
      taskSchema_issues (parse_argument fd)"
    by (rule taskSchema_issues_ignore_due_date)
next
  assume ok: "taskSchema_issues (parse_argument fd) = []" and e: "f_due_date fd = []"
  show "filter is_request (events (handleSubmit rt caller props fd dl)) =
             [request (write_request props (build_taskData props fd None))]"
    by (simp add: handleSubmit_accepts [OF ok] persist_requests [OF due_date_value_empty [OF e]])
next
  fix t
  assume ok: "taskSchema_issues (parse_argument fd) = []"
    and p: "f_due_date fd \<noteq> [] \<and> Date_parse rt (f_due_date fd) = Some t"
  then have "due_date_value rt fd = Inr (Some (toISOString rt t))"
    by (simp add: due_date_value_parsed)
  then show "filter is_request (events (handleSubmit rt caller props fd dl)) =
      [request (write_request props (build_taskData props fd (Some (toISOString rt t))))]"
    by (simp add: handleSubmit_accepts [OF ok] persist_requests)
next
  assume ok: "taskSchema_issues (parse_argument fd) = []"
    and p: "f_due_date fd \<noteq> [] \<and> Date_parse rt (f_due_date fd) = None"
  then have "due_date_value rt fd = Inl RangeError"
    by (simp add: due_date_value_invalid)
  then show "handleSubmit rt caller props fd dl =
      \<lparr> events = [preventDefault, setIsLoading True], after = dl, completion = threw RangeError \<rparr>"
    by (simp add: handleSubmit_accepts [OF ok] persist_throws)
qed

lemma js_trim_Pay_rent: "js_trim (js ''Pay rent'') = js ''Pay rent''"
  by (simp add: js_trim_def js_def is_whitespace_def js_whitespace_def)

lemma dated_form_valid: "taskSchema_issues (parse_argument dated_form) = []"
  by (rule issues_when_valid)
    (simp_all add: dated_form_def blank_form_def js_trim_Pay_rent, simp_all add: js_def)

lemma misdated_form_valid: "taskSchema_issues (parse_argument misdated_form) = []"
  by (rule issues_when_valid)
    (simp_all add: misdated_form_def blank_form_def js_trim_Pay_rent, simp_all add: js_def)

theorem due_date_not_validated_witness:
  "filter is_request
     (events (handleSubmit example_date (js ''alice'') alice_creates full_title_form example_store)) =
     [request (write_request alice_creates (build_taskData alice_creates full_title_form None))]
   \<and> filter is_request
     (events (handleSubmit example_date (js ''alice'') alice_creates dated_form example_store)) =
     [request (insert_row
        \<lparr> td_title = js ''Pay rent'', td_description = None, td_status = pending,
          td_priority = medium, td_due_date = Some (js ''2024-05-01T00:00:00.000Z''),
          td_user_id = js ''alice'' \<rparr>)]
   \<and> handleSubmit example_date (js ''alice'') alice_creates misdated_form example_store =
     \<lparr> events = [preventDefault, setIsLoading True], after = example_store,
       completion = threw RangeError \<rparr>"
proof -
  have full: "taskSchema_issues (parse_argument full_title_form) = []"
    by (rule issues_when_valid)
      (simp_all add: full_title_form_def blank_form_def js_trim_letters)
  have full_due: "f_due_date full_title_form = []"
    by (simp add: full_title_form_def blank_form_def)
  have dated: "f_due_date dated_form \<noteq> []
      \<and> Date_parse example_date (f_due_date dated_form) = Some 1714521600000"
    by (simp add: dated_form_def example_date_def js_def)
  have iso: "toISOString example_date 1714521600000 = js ''2024-05-01T00:00:00.000Z''"
    by (simp add: example_date_def)
  have req: "write_request alice_creates
        (build_taskData alice_creates dated_form (Some (js ''2024-05-01T00:00:00.000Z''))) =
      insert_row \<lparr> td_title = js ''Pay rent'', td_description = None, td_status = pending,
          td_priority = medium, td_due_date = Some (js ''2024-05-01T00:00:00.000Z''),
          td_user_id = js ''alice'' \<rparr>"
    by (simp add: write_request_def build_taskData_def alice_creates_def dated_form_def
        blank_form_def or_absent_def)
  have misdated: "f_due_date misdated_form \<noteq> []
      \<and> Date_parse example_date (f_due_date misdated_form) = None"
    by (simp add: misdated_form_def example_date_def js_def)
  from due_date_not_validated [where fd = full_title_form and rt = example_date
      and caller = "js ''alice''" and props = alice_creates and dl = example_store] full full_due
  have one: "filter is_request
     (events (handleSubmit example_date (js ''alice'') alice_creates full_title_form example_store)) =
     [request (write_request alice_creates (build_taskData alice_creates full_title_form None))]"
    by blast
  from due_date_not_validated [where fd = dated_form and rt = example_date
      and caller = "js ''alice''" and props = alice_creates and dl = example_store] dated_form_valid dated
  have "filter is_request
     (events (handleSubmit example_date (js ''alice'') alice_creates dated_form example_store)) =
     [request (write_request alice_creates
        (build_taskData alice_creates dated_form (Some (toISOString example_date 1714521600000))))]"
    by blast
  then have two: "filter is_request
     (events (handleSubmit example_date (js ''alice'') alice_creates dated_form example_store)) =
     [request (insert_row
        \<lparr> td_title = js ''Pay rent'', td_description = None, td_status = pending,
          td_priority = medium, td_due_date = Some (js ''2024-05-01T00:00:00.000Z''),
          td_user_id = js ''alice'' \<rparr>)]"
    by (simp only: iso req)
  from due_date_not_validated [where fd = misdated_form and rt = example_date
      and caller = "js ''alice''" and props = alice_creates and dl = example_store] misdated_form_valid misdated
  have three: "handleSubmit example_date (js ''alice'') alice_creates misdated_form example_store =
     \<lparr> events = [preventDefault, setIsLoading True], after = example_store,
       completion = threw RangeError \<rparr>"
    by blast
  from one two three show ?thesis by blast
qed

text \<open>
  Claim C6 as stated fails: the validation step accepts a due date that is not a date.
  The string below does not parse, and the schema raises no issue for the submission
  that carries it.
\<close>

theorem due_date_unparsed_counterexample:
  "Date_parse example_date (f_due_date misdated_form) = None
   \<and> f_due_date misdated_form = js ''not a date''
   \<and> taskSchema_parse (parse_argument misdated_form) =
       Inr \<lparr> in_title = js ''Pay rent'', in_description = None, in_status = pending,
             in_priority = medium, in_due_date = Some (js ''not a date'') \<rparr>"
proof -
  have "taskSchema_parse (parse_argument misdated_form) =
      Inr ((parse_argument misdated_form)
            \<lparr> in_title := js_trim (in_title (parse_argument misdated_form)) \<rparr>)"
    by (rule taskSchema_parse_accepts [OF misdated_form_valid])
  moreover have "(parse_argument misdated_form)
            \<lparr> in_title := js_trim (in_title (parse_argument misdated_form)) \<rparr> =
       \<lparr> in_title = js ''Pay rent'', in_description = None, in_status = pending,
         in_priority = medium, in_due_date = Some (js ''not a date'') \<rparr>"
    by (simp add: parse_argument_def misdated_form_def blank_form_def js_trim_Pay_rent
        or_absent_def, simp add: js_def)
  moreover have "Date_parse example_date (f_due_date misdated_form) = None"
    by (simp add: misdated_form_def example_date_def js_def)
  moreover have "f_due_date misdated_form = js ''not a date''"
    by (simp add: misdated_form_def)
  ultimately show ?thesis by simp
qed

section \<open>Properties of the data layer\<close>

lemma from_tasks_fault:
  "fault dl = Some e \<Longrightarrow>
     from_tasks caller dl req = (\<lparr> rs_data = None, rs_error = Some e \<rparr>, dl)"
  by (simp add: from_tasks_def run_request_def)

lemma from_tasks_select:
  "fault dl = None \<Longrightarrow>
     from_tasks caller dl (select_rows fs ord) =
       (\<lparr> rs_data = Some (ordered ord (filter (reaches (tasks_policy caller) fs) (tasks_table dl))),
          rs_error = None \<rparr>, dl)"
  by (simp add: from_tasks_def run_request_def)

lemma from_tasks_update:
  "fault dl = None \<Longrightarrow>
     from_tasks caller dl (update_rows p fs) =
       (\<lparr> rs_data = None, rs_error = None \<rparr>,
        dl \<lparr> tasks_table :=
               map (\<lambda>t. if reaches (tasks_policy caller) fs t then apply_patch p t else t)
                   (tasks_table dl) \<rparr>)"
  by (simp add: from_tasks_def run_request_def)

lemma from_tasks_delete:
  "fault dl = None \<Longrightarrow>
     from_tasks caller dl (delete_rows fs) =
       (\<lparr> rs_data = None, rs_error = None \<rparr>,
        dl \<lparr> tasks_table := filter (\<lambda>t. \<not> reaches (tasks_policy caller) fs t) (tasks_table dl) \<rparr>)"
  by (simp add: from_tasks_def run_request_def)

lemma reaches_eq_id:
  "reaches (tasks_policy caller) [eq_id v] t \<longleftrightarrow> user_id t = caller \<and> task_id t = v"
  by (simp add: reaches_def tasks_policy_def)

lemma reaches_no_filter: "reaches (tasks_policy caller) [] = (\<lambda>t. user_id t = caller)"
  by (simp add: fun_eq_iff reaches_def tasks_policy_def)

text \<open>The answer never depends on a row of another user, and no request changes one.\<close>

lemma response_own_rows_only:
  "fst (from_tasks caller dl req) =
   fst (from_tasks caller (dl \<lparr> tasks_table := filter (tasks_policy caller) (tasks_table dl) \<rparr>) req)"
proof (cases "fault dl")
  case (Some e)
  then show ?thesis by (simp add: from_tasks_def run_request_def)
next
  case None
  have "filter (reaches (tasks_policy caller) fs) (filter (tasks_policy caller) ts) =
        filter (reaches (tasks_policy caller) fs) ts" for fs ts
    by (induction ts) (auto simp: reaches_def)
  with None show ?thesis
    by (cases req) (simp_all add: from_tasks_def run_request_def)
qed

lemma foreign_rows_kept_update:
  "filter (\<lambda>t. user_id t \<noteq> caller)
     (map (\<lambda>t. if user_id t = caller \<and> task_id t = v then t \<lparr> status := s \<rparr> else t) ts) =
   filter (\<lambda>t. user_id t \<noteq> caller) ts"
  by (induction ts) auto

lemma foreign_rows_kept_delete:
  "filter (\<lambda>t. user_id t \<noteq> caller) (filter (\<lambda>t. \<not> (user_id t = caller \<and> task_id t = v)) ts) =
   filter (\<lambda>t. user_id t \<noteq> caller) ts"
  by (induction ts) auto

lemma apply_status_patch: "apply_patch (status_patch s) t = t \<lparr> status := s \<rparr>"
  by (simp add: apply_patch_def status_patch_def)

lemma apply_full_patch:
  "apply_patch (full_patch d) t =
     t \<lparr> title := td_title d, description := td_description d, status := td_status d,
         priority := td_priority d, due_date := td_due_date d, user_id := td_user_id d \<rparr>"
  by (simp add: apply_patch_def full_patch_def)

subsection \<open>Runs of the list handlers\<close>

lemma loadTasks_ok:
  "fault dl = None \<Longrightarrow>
     loadTasks caller dl =
       \<lparr> events = [request loadTasks_request,
                    setTasks (rev (sort_key created_at (filter (\<lambda>t. user_id t = caller) (tasks_table dl))))],
         after = dl, completion = returned \<rparr>"
  by (simp add: loadTasks_def loadTasks_request_def from_tasks_select reaches_no_filter)

lemma loadTasks_failed:
  "fault dl = Some e \<Longrightarrow>
     loadTasks caller dl =
       \<lparr> events = [request loadTasks_request,
                    toast \<lparr> toast_title = ''Error'', toast_description = ''Failed to load tasks'',
                            toast_variant = destructive \<rparr>],
         after = dl, completion = returned \<rparr>"
  by (simp add: loadTasks_def from_tasks_fault)

lemma handleDelete_ok:
  "fault dl = None \<Longrightarrow>
     handleDelete caller taskId dl =
       \<lparr> events = [request (delete_rows [eq_id taskId]),
                    toast \<lparr> toast_title = ''Success'',
                            toast_description = ''Task deleted successfully'',
                            toast_variant = default_variant \<rparr>,
                    onTasksChange, setDeleteTaskId None],
         after = dl \<lparr> tasks_table :=
                        filter (\<lambda>t. \<not> (user_id t = caller \<and> task_id t = taskId)) (tasks_table dl) \<rparr>,
         completion = returned \<rparr>"
  by (simp add: handleDelete_def from_tasks_delete reaches_eq_id)

lemma handleDelete_failed:
  "fault dl = Some e \<Longrightarrow>
     handleDelete caller taskId dl =
       \<lparr> events = [request (delete_rows [eq_id taskId]),
                    toast \<lparr> toast_title = ''Error'', toast_description = ''Failed to delete task'',
                            toast_variant = destructive \<rparr>],
         after = dl, completion = returned \<rparr>"
  by (simp add: handleDelete_def from_tasks_fault)

lemma handleStatusChange_ok:
  "fault dl = None \<Longrightarrow>
     handleStatusChange caller taskId newStatus dl =
       \<lparr> events = [request (update_rows (status_patch newStatus) [eq_id taskId]),
                    toast \<lparr> toast_title = ''Success'', toast_description = ''Task status updated'',
                            toast_variant = default_variant \<rparr>,
                    onTasksChange],
         after = dl \<lparr> tasks_table :=
                        map (\<lambda>t. if user_id t = caller \<and> task_id t = taskId
                                  then t \<lparr> status := newStatus \<rparr> else t) (tasks_table dl) \<rparr>,
         completion = returned \<rparr>"
  by (simp add: handleStatusChange_def from_tasks_update reaches_eq_id apply_status_patch)

lemma handleStatusChange_failed:
  "fault dl = Some e \<Longrightarrow>
     handleStatusChange caller taskId newStatus dl =
       \<lparr> events = [request (update_rows (status_patch newStatus) [eq_id taskId]),
                    toast \<lparr> toast_title = ''Error'',
                            toast_description = ''Failed to update task status'',
                            toast_variant = destructive \<rparr>],
         after = dl, completion = returned \<rparr>"
  by (simp add: handleStatusChange_def from_tasks_fault)

lemma persist_edit_ok:
  assumes "editing props = Some t" and "due_date_value rt fd = Inr due" and "fault dl = None"
  shows "persist rt caller props fd dl =
       \<lparr> events = [preventDefault, setIsLoading True,
                    request (update_rows (full_patch (build_taskData props fd due)) [eq_id (task_id t)]),
                    toast \<lparr> toast_title = ''Success'',
                            toast_description = ''Task updated successfully'',
                            toast_variant = default_variant \<rparr>,
                    setIsLoading False, onSuccess],
         after = dl \<lparr> tasks_table :=
                        map (\<lambda>r. if user_id r = caller \<and> task_id r = task_id t
                                  then apply_patch (full_patch (build_taskData props fd due)) r
                                  else r) (tasks_table dl) \<rparr>,
         completion = returned \<rparr>"
  using assms
  by (simp add: persist_def Let_def write_request_def success_text_def from_tasks_update
      reaches_eq_id)

lemma persist_edit_failed:
  assumes "editing props = Some t" and "due_date_value rt fd = Inr due" and "fault dl = Some e"
  shows "persist rt caller props fd dl =
       \<lparr> events = [preventDefault, setIsLoading True,
                    request (update_rows (full_patch (build_taskData props fd due)) [eq_id (task_id t)]),
                    toast \<lparr> toast_title = ''Error'', toast_description = err_message e,
                            toast_variant = destructive \<rparr>,
                    setIsLoading False],
         after = dl, completion = returned \<rparr>"
  using assms
  by (simp add: persist_def Let_def write_request_def from_tasks_fault)

lemma sorted_newest_first_adjacent:
  assumes "sorted_wrt (\<lambda>a b. created_at b \<le> created_at a) ts" and "Suc i < length ts"
  shows "created_at (ts ! Suc i) \<le> created_at (ts ! i)"
  using assms by (simp add: sorted_wrt_iff_nth_less)

lemma newest_first_sorted:
  "sorted_wrt (\<lambda>a b. created_at b \<le> created_at a) (rev (sort_key created_at ts))"
proof -
  have "sorted (map created_at (sort_key created_at ts))"
    by (rule sorted_sort_key)
  then have "sorted_wrt (\<lambda>a b. created_at a \<le> created_at b) (sort_key created_at ts)"
    by (simp add: sorted_wrt_map)
  then show ?thesis
    by (simp add: sorted_wrt_rev)
qed

section \<open>Properties of the task operations\<close>

text \<open>
  Claim C7. When the data layer answers, \<open>loadTasks\<close> sends one read ordered by
  \<open>created_at\<close> descending and hands the answer to \<open>setTasks\<close>: the list holds exactly the
  caller's rows, and in every adjacent pair the earlier element's \<open>created_at\<close> is greater
  than or equal to the later one's.
\<close>

theorem loadTasks_newest_first:
  assumes "fault dl = None"
  shows "\<exists>ts. events (loadTasks caller dl) =
             [request (select_rows [] (Some (order_created_at False))), setTasks ts]
      \<and> mset ts = mset (filter (\<lambda>t. user_id t = caller) (tasks_table dl))
      \<and> (\<forall>i. Suc i < length ts \<longrightarrow> created_at (ts ! Suc i) \<le> created_at (ts ! i))"
proof -
  let ?ts = "rev (sort_key created_at (filter (\<lambda>t. user_id t = caller) (tasks_table dl)))"
  have "events (loadTasks caller dl) =
      [request (select_rows [] (Some (order_created_at False))), setTasks ?ts]"
    by (simp add: loadTasks_ok [OF assms] loadTasks_request_def)
  moreover have "mset ?ts = mset (filter (\<lambda>t. user_id t = caller) (tasks_table dl))"
    by simp
  moreover have "\<forall>i. Suc i < length ?ts \<longrightarrow> created_at (?ts ! Suc i) \<le> created_at (?ts ! i)"
    using sorted_newest_first_adjacent [OF newest_first_sorted] by blast
  ultimately show ?thesis by blast
qed

lemma alice_rows:
  "filter (\<lambda>t. user_id t = js ''alice'') (tasks_table example_store) = [report_task, review_task]"
  by (simp add: example_store_def report_task_def review_task_def backup_task_def js_def)

lemma loadTasks_alice:
  "events (loadTasks (js ''alice'') example_store) =
     [request (select_rows [] (Some (order_created_at False))), setTasks [review_task, report_task]]"
proof -
  have f: "fault example_store = None"
    by (simp add: example_store_def)
  have "sort_key created_at [report_task, review_task] = [report_task, review_task]"
    by (simp add: report_task_def review_task_def)
  then show ?thesis
    by (simp add: loadTasks_ok [OF f] alice_rows loadTasks_request_def)
qed

theorem loadTasks_newest_first_witness:
  "events (loadTasks (js ''alice'') example_store) =
     [request (select_rows [] (Some (order_created_at False))), setTasks [review_task, report_task]]
   \<and> created_at report_task \<le> created_at review_task"
proof -
  have f: "fault example_store = None"
    by (simp add: example_store_def)
  from loadTasks_newest_first [OF f, of "js ''alice''"]
  obtain ts where ev: "events (loadTasks (js ''alice'') example_store) =
             [request (select_rows [] (Some (order_created_at False))), setTasks ts]"
    and adj: "\<forall>i. Suc i < length ts \<longrightarrow> created_at (ts ! Suc i) \<le> created_at (ts ! i)"
    by blast
  from ev loadTasks_alice have ts: "ts = [review_task, report_task]"
    by simp
  from adj have "Suc 0 < length ts \<longrightarrow> created_at (ts ! Suc 0) \<le> created_at (ts ! 0)"
    by blast
  with ts have "created_at report_task \<le> created_at review_task"
    by simp
  with loadTasks_alice show ?thesis by blast
qed

text \<open>
  Claim C8. The status change sends one update whose object names the status column
  and no other. Whatever the task and the target status, every row of the table is
  afterwards what it was before in all its other fields (title, description, priority,
  due date, creation instant, owner, id): putting the old status back gives the old row.
  When the data layer answers, the rows changed are the caller's rows with that id, and
  they differ from before in the status alone.
\<close>

theorem handleStatusChange_only_status:
  "filter is_request (events (handleStatusChange caller taskId newStatus dl)) =
     [request (update_rows
        \<lparr> set_title = None, set_description = None, set_status = Some newStatus,
          set_priority = None, set_due_date = None, set_user_id = None \<rparr> [eq_id taskId])]
   \<and> list_all2 (\<lambda>t t'. t' \<lparr> status := status t \<rparr> = t)
        (tasks_table dl) (tasks_table (after (handleStatusChange caller taskId newStatus dl)))
   \<and> (fault dl = None \<longrightarrow>
        tasks_table (after (handleStatusChange caller taskId newStatus dl)) =
          map (\<lambda>t. if user_id t = caller \<and> task_id t = taskId then t \<lparr> status := newStatus \<rparr> else t)
              (tasks_table dl))"
proof (cases "fault dl")
  case None
  have "list_all2 (\<lambda>t t'. t' \<lparr> status := status t \<rparr> = t) ts
      (map (\<lambda>t. if user_id t = caller \<and> task_id t = taskId then t \<lparr> status := newStatus \<rparr> else t) ts)"
    for ts
    by (induction ts) auto
  then show ?thesis
    by (simp add: handleStatusChange_ok [OF None] status_patch_def)
next
  case (Some e)
  have "list_all2 (\<lambda>t t'. t' \<lparr> status := status t \<rparr> = t) ts ts" for ts :: "task list"
    by (induction ts) auto
  then show ?thesis
    by (simp add: handleStatusChange_failed [OF Some] status_patch_def Some)
qed

theorem handleStatusChange_only_status_witness:
  "tasks_table (after (handleStatusChange (js ''alice'') (js ''t1'') completed example_store)) =
     [report_task \<lparr> status := completed \<rparr>, backup_task, review_task]"
proof -
  have f: "fault example_store = None"
    by (simp add: example_store_def)
  have "map (\<lambda>t. if user_id t = js ''alice'' \<and> task_id t = js ''t1''
                  then t \<lparr> status := completed \<rparr> else t) (tasks_table example_store) =
        [report_task \<lparr> status := completed \<rparr>, backup_task, review_task]"
    by (simp add: example_store_def report_task_def review_task_def backup_task_def js_def)
  with handleStatusChange_only_status [of "js ''alice''" "js ''t1''" completed example_store] f
  show ?thesis by simp
qed







text \<open>
  Claim C10. The edit form opened on a task with a stored due date keeps the part of
  the stored string before its first \<^verbatim>\<open>T\<close>. Saving without touching the field parses
  that part again and writes the ISO rendering of the result, so what is written
  depends on the date part alone: two stored due dates with the same date part are
  written back as the same value, and if they denote different instants the value
  written back cannot denote both. The round trip is not the identity on the due date.
\<close>

theorem edit_drops_time_of_day:
  assumes "due_date t = Some s" and "before_T s \<noteq> []"
    and "Date_parse rt (before_T s) = Some day"
    and "editing props = Some t"
    and "taskSchema_issues (parse_argument (initial_formData (Some t))) = []"
  shows "f_due_date (initial_formData (Some t)) = before_T s
      \<and> filter is_request (events (handleSubmit rt caller props (initial_formData (Some t)) dl)) =
          [request (update_rows
             (full_patch (build_taskData props (initial_formData (Some t))
                (Some (toISOString rt day)))) [eq_id (task_id t)])]
      \<and> td_due_date (build_taskData props (initial_formData (Some t)) (Some (toISOString rt day))) =
          Some (toISOString rt day)
      \<and> (\<forall>t' s'. due_date t' = Some s' \<and> before_T s' = before_T s \<longrightarrow>
            due_date_value rt (initial_formData (Some t')) = Inr (Some (toISOString rt day)))
      \<and> (\<forall>s'. before_T s' = before_T s \<and> Date_parse rt s' \<noteq> Date_parse rt s \<longrightarrow>
            Date_parse rt (toISOString rt day) \<noteq> Date_parse rt s
            \<or> Date_parse rt (toISOString rt day) \<noteq> Date_parse rt s')"
proof -
  from assms(2) have s: "s \<noteq> []"
    by (auto simp: before_T_def)
  with assms(1) have form: "f_due_date (initial_formData (Some t)) = before_T s"
    by simp
  with assms(2) assms(3)
  have due: "due_date_value rt (initial_formData (Some t)) = Inr (Some (toISOString rt day))"
    by (simp add: due_date_value_parsed)
  have req: "filter is_request (events (handleSubmit rt caller props (initial_formData (Some t)) dl)) =
          [request (update_rows
             (full_patch (build_taskData props (initial_formData (Some t))
                (Some (toISOString rt day)))) [eq_id (task_id t)])]"
    by (simp add: handleSubmit_accepts [OF assms(5)] persist_requests [OF due] write_request_def
        assms(4) del: initial_formData.simps)
  have same: "due_date_value rt (initial_formData (Some t')) = Inr (Some (toISOString rt day))"
    if "due_date t' = Some s' \<and> before_T s' = before_T s" for t' s'
  proof -
    from that assms(2) have "s' \<noteq> []"
      by (auto simp: before_T_def)
    with that have "f_due_date (initial_formData (Some t')) = before_T s"
      by simp
    with assms(2) assms(3) show ?thesis
      by (simp add: due_date_value_parsed)
  qed
  have td: "td_due_date (build_taskData props (initial_formData (Some t))
      (Some (toISOString rt day))) = Some (toISOString rt day)"
    by (simp add: build_taskData_def del: initial_formData.simps)
  from form req td same show ?thesis
    by auto
qed

theorem edit_drops_time_of_day_witness:
  "due_date report_task = Some (js ''2024-05-01T10:30:00+00:00'')
   \<and> f_due_date (initial_formData (Some report_task)) = js ''2024-05-01''
   \<and> filter is_request
        (events (handleSubmit example_date (js ''alice'') alice_edits_report
           (initial_formData (Some report_task)) example_store)) =
       [request (update_rows
          \<lparr> set_title = Some (js ''Write report''), set_description = Some None,
            set_status = Some pending, set_priority = Some high,
            set_due_date = Some (Some (js ''2024-05-01T00:00:00.000Z'')),
            set_user_id = Some (js ''alice'') \<rparr> [eq_id (js ''t1'')])]
   \<and> Date_parse example_date (js ''2024-05-01T10:30:00+00:00'') = Some 1714559400000
   \<and> Date_parse example_date (js ''2024-05-01T00:00:00.000Z'') = Some 1714521600000"
proof -
  have d: "due_date report_task = Some (js ''2024-05-01T10:30:00+00:00'')"
    by (simp add: report_task_def)
  have b: "before_T (js ''2024-05-01T10:30:00+00:00'') = js ''2024-05-01''"
    by (simp add: before_T_def js_def)
  have ne: "before_T (js ''2024-05-01T10:30:00+00:00'') \<noteq> []"
    by (simp add: b, simp add: js_def)
  have p: "Date_parse example_date (before_T (js ''2024-05-01T10:30:00+00:00'')) = Some 1714521600000"
    by (simp add: b example_date_def)
  have e: "editing alice_edits_report = Some report_task"
    by (simp add: alice_edits_report_def)
  have t: "js_trim (js ''Write report'') = js ''Write report''"
    by (simp add: js_trim_def js_def is_whitespace_def js_whitespace_def)
  have v: "taskSchema_issues (parse_argument (initial_formData (Some report_task))) = []"
    by (rule issues_when_valid) (simp_all add: report_task_def t, simp_all add: js_def)
  have iso: "toISOString example_date 1714521600000 = js ''2024-05-01T00:00:00.000Z''"
    by (simp add: example_date_def)
  have patch: "full_patch (build_taskData alice_edits_report (initial_formData (Some report_task))
        (Some (js ''2024-05-01T00:00:00.000Z''))) =
      \<lparr> set_title = Some (js ''Write report''), set_description = Some None,
        set_status = Some pending, set_priority = Some high,
        set_due_date = Some (Some (js ''2024-05-01T00:00:00.000Z'')),
        set_user_id = Some (js ''alice'') \<rparr>"
    by (simp add: full_patch_def build_taskData_def alice_edits_report_def report_task_def
        or_absent_def)
  have id: "task_id report_task = js ''t1''"
    by (simp add: report_task_def)
  have p1: "Date_parse example_date (js ''2024-05-01T10:30:00+00:00'') = Some 1714559400000"
    by (simp add: example_date_def js_def)
  have p2: "Date_parse example_date (js ''2024-05-01T00:00:00.000Z'') = Some 1714521600000"
    by (simp add: example_date_def js_def)
  note inst = edit_drops_time_of_day [OF d ne p e v, of "js ''alice''" example_store]
  from inst have "f_due_date (initial_formData (Some report_task)) =
      before_T (js ''2024-05-01T10:30:00+00:00'')"
    by blast
  then have one: "f_due_date (initial_formData (Some report_task)) = js ''2024-05-01''"
    by (simp only: b)
  from inst have "filter is_request
        (events (handleSubmit example_date (js ''alice'') alice_edits_report
           (initial_formData (Some report_task)) example_store)) =
       [request (update_rows
             (full_patch (build_taskData alice_edits_report (initial_formData (Some report_task))
                (Some (toISOString example_date 1714521600000)))) [eq_id (task_id report_task)])]"
    by blast
  then have two: "filter is_request
        (events (handleSubmit example_date (js ''alice'') alice_edits_report
           (initial_formData (Some report_task)) example_store)) =
       [request (update_rows
          \<lparr> set_title = Some (js ''Write report''), set_description = Some None,
            set_status = Some pending, set_priority = Some high,
            set_due_date = Some (Some (js ''2024-05-01T00:00:00.000Z'')),
            set_user_id = Some (js ''alice'') \<rparr> [eq_id (js ''t1'')])]"
    by (simp only: iso patch id)
  from d one two p1 p2 show ?thesis by blast
qed

section \<open>Scoping of the task operations\<close>

lemma own_rows_only_fault: "fault (own_rows_only caller dl) = fault dl"
  by (simp add: own_rows_only_def)

lemma own_rows_only_rows:
  "filter (\<lambda>t. user_id t = caller) (tasks_table (own_rows_only caller dl)) =
   filter (\<lambda>t. user_id t = caller) (tasks_table dl)"
  by (simp add: own_rows_only_def tasks_policy_def)

lemma loadTasks_own_rows_only:
  "events (loadTasks caller dl) = events (loadTasks caller (own_rows_only caller dl))"
proof (cases "fault dl")
  case None
  then have "fault (own_rows_only caller dl) = None"
    by (simp add: own_rows_only_fault)
  from loadTasks_ok [OF None] loadTasks_ok [OF this] show ?thesis
    by (simp add: own_rows_only_rows)
next
  case (Some e)
  then have "fault (own_rows_only caller dl) = Some e"
    by (simp add: own_rows_only_fault)
  from loadTasks_failed [OF Some] loadTasks_failed [OF this] show ?thesis
    by simp
qed

lemma handleDelete_own_rows_only:
  "events (handleDelete caller taskId dl) = events (handleDelete caller taskId (own_rows_only caller dl))"
proof (cases "fault dl")
  case None
  then have "fault (own_rows_only caller dl) = None"
    by (simp add: own_rows_only_fault)
  from handleDelete_ok [OF None] handleDelete_ok [OF this] show ?thesis
    by simp
next
  case (Some e)
  then have "fault (own_rows_only caller dl) = Some e"
    by (simp add: own_rows_only_fault)
  from handleDelete_failed [OF Some] handleDelete_failed [OF this] show ?thesis
    by simp
qed

lemma handleStatusChange_own_rows_only:
  "events (handleStatusChange caller taskId s dl) =
   events (handleStatusChange caller taskId s (own_rows_only caller dl))"
proof (cases "fault dl")
  case None
  then have "fault (own_rows_only caller dl) = None"
    by (simp add: own_rows_only_fault)
  from handleStatusChange_ok [OF None] handleStatusChange_ok [OF this] show ?thesis
    by simp
next
  case (Some e)
  then have "fault (own_rows_only caller dl) = Some e"
    by (simp add: own_rows_only_fault)
  from handleStatusChange_failed [OF Some] handleStatusChange_failed [OF this] show ?thesis
    by simp
qed

lemma loadTasks_shows_own:
  assumes "setTasks ts \<in> set (events (loadTasks caller dl))"
  shows "\<forall>t \<in> set ts. user_id t = caller"
proof (cases "fault dl")
  case None
  with assms have "ts = rev (sort_key created_at (filter (\<lambda>t. user_id t = caller) (tasks_table dl)))"
    by (simp add: loadTasks_ok)
  then show ?thesis by simp
next
  case (Some e)
  with assms show ?thesis
    by (simp add: loadTasks_failed)
qed

lemma handleDelete_keeps_foreign:
  "filter (\<lambda>t. user_id t \<noteq> caller) (tasks_table (after (handleDelete caller taskId dl))) =
   filter (\<lambda>t. user_id t \<noteq> caller) (tasks_table dl)"
proof (cases "fault dl")
  case None
  have "tasks_table (after (handleDelete caller taskId dl)) =
      filter (\<lambda>t. \<not> (user_id t = caller \<and> task_id t = taskId)) (tasks_table dl)"
    by (simp add: handleDelete_ok [OF None])
  then show ?thesis
    by (simp only: foreign_rows_kept_delete)
next
  case (Some e)
  then show ?thesis
    by (simp add: handleDelete_failed)
qed

lemma handleStatusChange_keeps_foreign:
  "filter (\<lambda>t. user_id t \<noteq> caller) (tasks_table (after (handleStatusChange caller taskId s dl))) =
   filter (\<lambda>t. user_id t \<noteq> caller) (tasks_table dl)"
proof (cases "fault dl")
  case None
  have "tasks_table (after (handleStatusChange caller taskId s dl)) =
      map (\<lambda>t. if user_id t = caller \<and> task_id t = taskId then t \<lparr> status := s \<rparr> else t)
        (tasks_table dl)"
    by (simp add: handleStatusChange_ok [OF None])
  then show ?thesis
    by (simp only: foreign_rows_kept_update)
next
  case (Some e)
  then show ?thesis
    by (simp add: handleStatusChange_failed)
qed

lemma filter_nothing_reached:
  "\<not> (\<exists>t \<in> set ts. user_id t = caller \<and> task_id t = v) \<Longrightarrow>
     filter (\<lambda>t. \<not> (user_id t = caller \<and> task_id t = v)) ts = ts"
  by (induction ts) auto

lemma map_nothing_reached:
  "\<not> (\<exists>t \<in> set ts. user_id t = caller \<and> task_id t = v) \<Longrightarrow>
     map (\<lambda>t. if user_id t = caller \<and> task_id t = v then f t else t) ts = ts"
  by (induction ts) auto

lemma handleDelete_denied:
  assumes "\<not> (\<exists>t \<in> set (tasks_table dl). user_id t = caller \<and> task_id t = taskId)"
  shows "after (handleDelete caller taskId dl) = dl"
proof (cases "fault dl")
  case None
  have "after (handleDelete caller taskId dl) =
      dl \<lparr> tasks_table :=
             filter (\<lambda>t. \<not> (user_id t = caller \<and> task_id t = taskId)) (tasks_table dl) \<rparr>"
    by (simp add: handleDelete_ok [OF None])
  also have "\<dots> = dl \<lparr> tasks_table := tasks_table dl \<rparr>"
    by (simp only: filter_nothing_reached [OF assms])
  finally show ?thesis
    by simp
next
  case (Some e)
  then show ?thesis
    by (simp add: handleDelete_failed)
qed

lemma handleStatusChange_denied:
  assumes "\<not> (\<exists>t \<in> set (tasks_table dl). user_id t = caller \<and> task_id t = taskId)"
  shows "after (handleStatusChange caller taskId s dl) = dl"
proof (cases "fault dl")
  case None
  have "after (handleStatusChange caller taskId s dl) =
      dl \<lparr> tasks_table :=
             map (\<lambda>t. if user_id t = caller \<and> task_id t = taskId then t \<lparr> status := s \<rparr> else t)
               (tasks_table dl) \<rparr>"
    by (simp add: handleStatusChange_ok [OF None])
  also have "\<dots> = dl \<lparr> tasks_table := tasks_table dl \<rparr>"
    by (simp only: map_nothing_reached [OF assms])
  finally show ?thesis
    by simp
next
  case (Some e)
  then show ?thesis
    by (simp add: handleStatusChange_failed)
qed

lemma foreign_rows_kept_edit:
  "list_all2 (\<lambda>r r'. user_id r = caller \<or> r' = r) ts
     (map (\<lambda>r. if user_id r = caller \<and> task_id r = v then f r else r) ts)"
  by (induction ts) auto

lemma handleSubmit_keeps_foreign:
  assumes "editing props = Some t"
  shows "list_all2 (\<lambda>r r'. user_id r = caller \<or> r' = r) (tasks_table dl)
     (tasks_table (after (handleSubmit rt caller props fd dl)))"
proof -
  have same: "list_all2 (\<lambda>r r'. user_id r = caller \<or> r' = r) (tasks_table dl) (tasks_table dl)"
    by (rule list.rel_refl) simp
  show ?thesis
  proof (cases "taskSchema_issues (parse_argument fd)")
    case (Cons i rest)
    with same show ?thesis
      by (simp add: handleSubmit_rejects)
  next
    case Nil
    note run = handleSubmit_accepts [OF Nil, of rt caller props dl]
    show ?thesis
    proof (cases "due_date_value rt fd")
      case (Inl x)
      with same show ?thesis
        by (simp add: run persist_throws)
    next
      case (Inr due)
      show ?thesis
      proof (cases "fault dl")
        case None
        show ?thesis
          by (simp add: run persist_edit_ok [OF assms Inr None] foreign_rows_kept_edit)
      next
        case (Some e)
        with same show ?thesis
          by (simp add: run persist_edit_failed [OF assms Inr Some])
      qed
    qed
  qed
qed

text \<open>
  The list query by itself is not scoped: run without the policy, the same request
  returns the task of the other user as well.
\<close>

lemma loadTasks_request_without_policy:
  "rs_data (fst (run_request (\<lambda>t. True) (\<lambda>d. True) example_store loadTasks_request)) =
     Some [review_task, backup_task, report_task]"
  by (simp add: run_request_def loadTasks_request_def example_store_def reaches_def
      report_task_def review_task_def backup_task_def)

text \<open>
  Claim C2. The requests of the list, of the delete and of the status update carry no
  owner filter: the read has no filter at all, the other two filter by task id only.
  Under the access policy the list shows the caller's own rows only; a delete, a
  status update or an edit through the form leaves every row of another owner in place
  and unchanged; what the
  caller observes of each operation is what it would observe if the rows of other
  owners did not exist; and when none of the caller's rows has the task id, be it
  another user's id or no row's, the data layer is left as it was.
\<close>

theorem task_operations_scoped_by_policy:
  "filter is_request (events (loadTasks caller dl)) =
     [request (select_rows [] (Some (order_created_at False)))]
   \<and> filter is_request (events (handleDelete caller taskId dl)) =
     [request (delete_rows [eq_id taskId])]
   \<and> filter is_request (events (handleStatusChange caller taskId s dl)) =
     [request (update_rows (status_patch s) [eq_id taskId])]
   \<and> (\<forall>ts. setTasks ts \<in> set (events (loadTasks caller dl)) \<longrightarrow> (\<forall>t \<in> set ts. user_id t = caller))
   \<and> filter (\<lambda>t. user_id t \<noteq> caller) (tasks_table (after (handleDelete caller taskId dl))) =
     filter (\<lambda>t. user_id t \<noteq> caller) (tasks_table dl)
   \<and> filter (\<lambda>t. user_id t \<noteq> caller) (tasks_table (after (handleStatusChange caller taskId s dl))) =
     filter (\<lambda>t. user_id t \<noteq> caller) (tasks_table dl)
   \<and> (editing props \<noteq> None \<longrightarrow>
        list_all2 (\<lambda>r r'. user_id r = caller \<or> r' = r) (tasks_table dl)
          (tasks_table (after (handleSubmit rt caller props fd dl))))
   \<and> events (loadTasks caller dl) = events (loadTasks caller (own_rows_only caller dl))
   \<and> events (handleDelete caller taskId dl) =
     events (handleDelete caller taskId (own_rows_only caller dl))
   \<and> events (handleStatusChange caller taskId s dl) =
     events (handleStatusChange caller taskId s (own_rows_only caller dl))
   \<and> (\<not> (\<exists>t \<in> set (tasks_table dl). user_id t = caller \<and> task_id t = taskId) \<longrightarrow>
        after (handleDelete caller taskId dl) = dl
        \<and> after (handleStatusChange caller taskId s dl) = dl)"
proof -
  have r1: "filter is_request (events (loadTasks caller dl)) =
     [request (select_rows [] (Some (order_created_at False)))]"
    by (cases "fault dl") (simp_all add: loadTasks_ok loadTasks_failed loadTasks_request_def)
  have r2: "filter is_request (events (handleDelete caller taskId dl)) =
     [request (delete_rows [eq_id taskId])]"
    by (cases "fault dl") (simp_all add: handleDelete_ok handleDelete_failed)
  have r3: "filter is_request (events (handleStatusChange caller taskId s dl)) =
     [request (update_rows (status_patch s) [eq_id taskId])]"
    by (cases "fault dl") (simp_all add: handleStatusChange_ok handleStatusChange_failed)
  have own: "\<forall>ts. setTasks ts \<in> set (events (loadTasks caller dl)) \<longrightarrow>
      (\<forall>t \<in> set ts. user_id t = caller)"
    using loadTasks_shows_own by blast
  have denied: "\<not> (\<exists>t \<in> set (tasks_table dl). user_id t = caller \<and> task_id t = taskId) \<longrightarrow>
        after (handleDelete caller taskId dl) = dl
        \<and> after (handleStatusChange caller taskId s dl) = dl"
    using handleDelete_denied handleStatusChange_denied by blast
  have edit: "editing props \<noteq> None \<longrightarrow>
        list_all2 (\<lambda>r r'. user_id r = caller \<or> r' = r) (tasks_table dl)
          (tasks_table (after (handleSubmit rt caller props fd dl)))"
    using handleSubmit_keeps_foreign by blast
  from r1 r2 r3 own denied edit show ?thesis
    using handleDelete_keeps_foreign [of caller taskId dl]
      handleStatusChange_keeps_foreign [of caller taskId s dl]
      loadTasks_own_rows_only [of caller dl]
      handleDelete_own_rows_only [of caller taskId dl]
      handleStatusChange_own_rows_only [of caller taskId s dl]
    by (intro conjI) assumption+
qed

theorem task_operations_scoped_by_policy_witness:
  "user_id backup_task = js ''bob''
   \<and> task_id backup_task = js ''t3''
   \<and> after (handleDelete (js ''alice'') (js ''t3'') example_store) = example_store
   \<and> after (handleStatusChange (js ''alice'') (js ''t3'') completed example_store) = example_store
   \<and> user_id review_task = js ''alice''
   \<and> user_id report_task = js ''alice''
   \<and> list_all2 (\<lambda>r r'. user_id r = js ''alice'' \<or> r' = r) (tasks_table example_store)
        (tasks_table (after (handleSubmit example_date (js ''alice'') alice_edits_report
           retitled_form example_store)))"
proof -
  have none: "\<not> (\<exists>t \<in> set (tasks_table example_store).
      user_id t = js ''alice'' \<and> task_id t = js ''t3'')"
    by (simp add: example_store_def report_task_def review_task_def backup_task_def js_def)
  have shown: "setTasks [review_task, report_task] \<in>
      set (events (loadTasks (js ''alice'') example_store))"
    by (simp add: loadTasks_alice)
  have editing: "editing alice_edits_report \<noteq> None"
    by (simp add: alice_edits_report_def)
  note inst = task_operations_scoped_by_policy [where caller = "js ''alice''"
      and dl = example_store and taskId = "js ''t3''" and s = completed
      and props = alice_edits_report and rt = example_date and fd = retitled_form]
  from inst none
  have denied: "after (handleDelete (js ''alice'') (js ''t3'') example_store) = example_store
      \<and> after (handleStatusChange (js ''alice'') (js ''t3'') completed example_store) = example_store"
    by blast
  from inst shown have "\<forall>t \<in> set [review_task, report_task]. user_id t = js ''alice''"
    by blast
  then have own: "user_id review_task = js ''alice'' \<and> user_id report_task = js ''alice''"
    by simp
  have "user_id backup_task = js ''bob'' \<and> task_id backup_task = js ''t3''"
    by (simp add: backup_task_def)
  moreover from inst editing
  have "list_all2 (\<lambda>r r'. user_id r = js ''alice'' \<or> r' = r) (tasks_table example_store)
        (tasks_table (after (handleSubmit example_date (js ''alice'') alice_edits_report
           retitled_form example_store)))"
    by blast
  ultimately show ?thesis
    using denied own by blast
qed


end
